theory Spec2Isabelle
  imports Complex_Main "HOL-Library.Signed_Division" "HOL-Library.Log_Nat" "HOL-Library.AList"
begin

section \<open>Errors\<close>

text \<open>
  Go error values. \<open>ExternalError\<close> is an error produced outside the program (the JSON
  encoder, the HTTP client, the Kubernetes client, a parser of the standard library);
  \<open>Error msg\<close> is \<^verbatim>\<open>fmt.Errorf(msg)\<close>; \<open>StatusError c\<close> is
  \<^verbatim>\<open>fmt.Errorf("webhook returned non-success status: %d", c)\<close>; \<open>Errorf msg e\<close> is
  \<^verbatim>\<open>fmt.Errorf(msg + ": %w", e)\<close>, where the wrapped error may be nil.
\<close>

datatype error =
    ExternalError string
  | Error string
  | StatusError int
  | Errorf string "error option"

section \<open>Package time: instants and durations\<close>

text \<open>
  An instant is a count of nanoseconds on one timeline: the wall clock and the monotonic
  clock of a \<^verbatim>\<open>time.Time\<close> are not told apart, and the range of an instant is not
  bounded. A \<^verbatim>\<open>time.Duration\<close> is an int64 count of nanoseconds. \<^verbatim>\<open>Time.Sub\<close>
  saturates at the largest and smallest duration, as its documentation says.
\<close>

type_synonym time = int
type_synonym duration = int

definition Second :: duration where
  "Second = 1000000000"

definition Minute :: duration where
  "Minute = 60 * Second"

definition Hour :: duration where
  "Hour = 60 * Minute"

definition minDuration :: duration where
  "minDuration = - (2 ^ 63)"

definition maxDuration :: duration where
  "maxDuration = 2 ^ 63 - 1"

definition After :: "time \<Rightarrow> time \<Rightarrow> bool" where
  "After t u = (u < t)"

definition Add :: "time \<Rightarrow> duration \<Rightarrow> time" where
  "Add t d = t + d"

definition Sub :: "time \<Rightarrow> time \<Rightarrow> duration" where
  "Sub t u =
     (if maxDuration < t - u then maxDuration
      else if t - u < minDuration then minDuration
      else t - u)"

section \<open>Formatting\<close>

text \<open>The verb \<^verbatim>\<open>%d\<close> of \<^verbatim>\<open>fmt.Sprintf\<close>: a decimal numeral, with a minus sign below zero.\<close>

function digits :: "nat \<Rightarrow> string" where
  "digits n =
     (if n < 10 then [char_of (48 + n)]
      else digits (n div 10) @ [char_of (48 + n mod 10)])"
  by pat_completeness auto
termination
  by (relation "measure id") auto

declare digits.simps [simp del]

definition Itoa :: "int \<Rightarrow> string" where
  "Itoa i = (if i < 0 then CHR ''-'' # digits (nat (- i)) else digits (nat i))"

section \<open>Data model: configuration\<close>

record WebhookConfig =
  Name :: string
  URL :: string
  Headers :: "(string \<times> string) list"
  Timeout :: duration

record Config =
  Webhooks :: "WebhookConfig list"
  CheckInterval :: duration
  ExpirationThreshold :: duration
  Namespace :: string
  HealthPort :: int
  LogLevel :: string

section \<open>Package strings\<close>

text \<open>
  \<^verbatim>\<open>strings.Split(s, sep)\<close> for a separator of one byte: the pieces between the
  separators, one piece more than there are separators.
\<close>

fun Split :: "string \<Rightarrow> char \<Rightarrow> string list" where
  "Split [] sep = [[]]"
| "Split (c # cs) sep =
     (if c = sep then [] # Split cs sep
      else (case Split cs sep of
              [] \<Rightarrow> [[c]]
            | piece # pieces \<Rightarrow> (c # piece) # pieces))"

text \<open>
  \<^verbatim>\<open>strings.SplitN(s, sep, 2)\<close> for a separator of one byte: the string itself when it
  has no separator, else the part before the first separator and the part after it.
\<close>

fun SplitN2 :: "string \<Rightarrow> char \<Rightarrow> string list" where
  "SplitN2 [] sep = [[]]"
| "SplitN2 (c # cs) sep =
     (if c = sep then [[], cs]
      else (case SplitN2 cs sep of
              [piece] \<Rightarrow> [c # piece]
            | [before, after] \<Rightarrow> [c # before, after]
            | _ \<Rightarrow> [c # cs]))"

text \<open>
  The UTF-8 encodings of the runes for which \<^verbatim>\<open>unicode.IsSpace\<close> holds: tab, line
  feed, vertical tab, form feed, carriage return, space, U+0085, U+00A0, U+1680,
  U+2000 to U+200A, U+2028, U+2029, U+202F, U+205F and U+3000.
\<close>

definition space_runes :: "string list" where
  "space_runes =
     [[CHR 0x09], [CHR 0x0A], [CHR 0x0B], [CHR 0x0C], [CHR 0x0D], [CHR 0x20],
      [CHR 0xC2, CHR 0x85], [CHR 0xC2, CHR 0xA0],
      [CHR 0xE1, CHR 0x9A, CHR 0x80],
      [CHR 0xE2, CHR 0x80, CHR 0x80], [CHR 0xE2, CHR 0x80, CHR 0x81],
      [CHR 0xE2, CHR 0x80, CHR 0x82], [CHR 0xE2, CHR 0x80, CHR 0x83],
      [CHR 0xE2, CHR 0x80, CHR 0x84], [CHR 0xE2, CHR 0x80, CHR 0x85],
      [CHR 0xE2, CHR 0x80, CHR 0x86], [CHR 0xE2, CHR 0x80, CHR 0x87],
      [CHR 0xE2, CHR 0x80, CHR 0x88], [CHR 0xE2, CHR 0x80, CHR 0x89],
      [CHR 0xE2, CHR 0x80, CHR 0x8A],
      [CHR 0xE2, CHR 0x80, CHR 0xA8], [CHR 0xE2, CHR 0x80, CHR 0xA9],
      [CHR 0xE2, CHR 0x80, CHR 0xAF], [CHR 0xE2, CHR 0x81, CHR 0x9F],
      [CHR 0xE3, CHR 0x80, CHR 0x80]]"

text \<open>The number of bytes of the pattern of \<open>ps\<close> that \<open>s\<close> starts with, 0 if none.\<close>

definition leading :: "string list \<Rightarrow> string \<Rightarrow> nat" where
  "leading ps s =
     (case filter (\<lambda>p. take (length p) s = p) ps of
        [] \<Rightarrow> 0
      | p # _ \<Rightarrow> length p)"

fun trim_leading :: "string list \<Rightarrow> string \<Rightarrow> string" where
  "trim_leading ps [] = []"
| "trim_leading ps (c # cs) =
     (if leading ps (c # cs) = 0 then c # cs
      else trim_leading ps (drop (leading ps (c # cs) - 1) cs))"

text \<open>
  \<^verbatim>\<open>strings.TrimSpace\<close>: the string without its leading and trailing white space
  runes. A trailing rune is a leading pattern of the reversed string, reversed.
\<close>

definition TrimSpace :: "string \<Rightarrow> string" where
  "TrimSpace s =
     rev (trim_leading (map rev space_runes) (rev (trim_leading space_runes s)))"

section \<open>Configuration\<close>

text \<open>
  The process environment maps a variable to its value; \<^verbatim>\<open>os.Getenv\<close> answers the
  empty string for a variable that is not set.
\<close>

definition Getenv :: "(string \<rightharpoonup> string) \<Rightarrow> string \<Rightarrow> string" where
  "Getenv environ key = (case environ key of None \<Rightarrow> '''' | Some val \<Rightarrow> val)"

text \<open>The two parsers of the standard library that \<^verbatim>\<open>Load\<close> calls.\<close>

record Stdlib =
  time_ParseDuration :: "string \<Rightarrow> error + duration"
  strconv_Atoi :: "string \<Rightarrow> error + int"

text \<open>The loop over the pairs of a \<^verbatim>\<open>WEBHOOK_N_HEADERS\<close> value.\<close>

fun headers_loop :: "string list \<Rightarrow> (string \<times> string) list \<Rightarrow> (string \<times> string) list" where
  "headers_loop [] headers = headers"
| "headers_loop (pair # rest) headers =
     (case SplitN2 pair CHR '':'' of
        [k, v] \<Rightarrow> headers_loop rest (AList.update (TrimSpace k) (TrimSpace v) headers)
      | _ \<Rightarrow> headers_loop rest headers)"

text \<open>The loop of \<^verbatim>\<open>loadWebhooks\<close> over the pieces of \<^verbatim>\<open>WEBHOOK_URLS\<close>, from index \<open>i\<close>.\<close>

fun loadWebhooks_loop ::
  "Stdlib \<Rightarrow> (string \<rightharpoonup> string) \<Rightarrow> nat \<Rightarrow> string list \<Rightarrow> WebhookConfig list
     \<Rightarrow> WebhookConfig list" where
  "loadWebhooks_loop lib environ i [] webhooks = webhooks"
| "loadWebhooks_loop lib environ i (piece # rest) webhooks =
     (let url = TrimSpace piece in
      if url = '''' then loadWebhooks_loop lib environ (i + 1) rest webhooks
      else
        let webhook =
              \<lparr>Name = ''webhook-'' @ Itoa (int i + 1), URL = url, Headers = [],
               Timeout = 30 * Second\<rparr>;
            headers = Getenv environ (''WEBHOOK_'' @ Itoa (int i + 1) @ ''_HEADERS'');
            webhook1 =
              (if headers \<noteq> ''''
               then webhook\<lparr>Headers := headers_loop (Split headers CHR '','') (Headers webhook)\<rparr>
               else webhook);
            timeout = Getenv environ (''WEBHOOK_'' @ Itoa (int i + 1) @ ''_TIMEOUT'');
            webhook2 =
              (if timeout \<noteq> ''''
               then (case time_ParseDuration lib timeout of
                       Inr duration \<Rightarrow> webhook1\<lparr>Timeout := duration\<rparr>
                     | Inl err \<Rightarrow> webhook1)
               else webhook1)
        in loadWebhooks_loop lib environ (i + 1) rest (webhooks @ [webhook2]))"

definition loadWebhooks :: "Stdlib \<Rightarrow> (string \<rightharpoonup> string) \<Rightarrow> error + WebhookConfig list" where
  "loadWebhooks lib environ =
     (let urls = Getenv environ ''WEBHOOK_URLS'' in
      if urls = '''' then Inl (Error ''WEBHOOK_URLS environment variable is required'')
      else
        let webhooks = loadWebhooks_loop lib environ 0 (Split urls CHR '','') [] in
        if length webhooks = 0 then Inl (Error ''no valid webhooks configured'')
        else Inr webhooks)"

definition Load :: "Stdlib \<Rightarrow> (string \<rightharpoonup> string) \<Rightarrow> error + Config" where
  "Load lib environ =
     (let cfg =
            \<lparr>Webhooks = [], CheckInterval = 24 * Hour, ExpirationThreshold = 30 * 24 * Hour,
             Namespace = '''', HealthPort = 8080, LogLevel = ''info''\<rparr>
      in case loadWebhooks lib environ of
           Inl err \<Rightarrow> Inl (Errorf ''failed to load webhooks'' (Some err))
         | Inr webhooks \<Rightarrow>
             let cfg1 = cfg\<lparr>Webhooks := webhooks\<rparr>;
                 interval = Getenv environ ''CHECK_INTERVAL'';
                 cfg2 =
                   (if interval \<noteq> ''''
                    then (case time_ParseDuration lib interval of
                            Inr duration \<Rightarrow> cfg1\<lparr>CheckInterval := duration\<rparr>
                          | Inl err \<Rightarrow> cfg1)
                    else cfg1);
                 threshold = Getenv environ ''EXPIRATION_THRESHOLD'';
                 cfg3 =
                   (if threshold \<noteq> ''''
                    then (case time_ParseDuration lib threshold of
                            Inr duration \<Rightarrow> cfg2\<lparr>ExpirationThreshold := duration\<rparr>
                          | Inl err \<Rightarrow> cfg2)
                    else cfg2);
                 namespace = Getenv environ ''NAMESPACE'';
                 cfg4 = (if namespace \<noteq> '''' then cfg3\<lparr>Namespace := namespace\<rparr> else cfg3);
                 healthPort = Getenv environ ''HEALTH_PORT'';
                 cfg5 =
                   (if healthPort \<noteq> ''''
                    then (case strconv_Atoi lib healthPort of
                            Inr port \<Rightarrow> cfg4\<lparr>HealthPort := port\<rparr>
                          | Inl err \<Rightarrow> cfg4)
                    else cfg4);
                 logLevel = Getenv environ ''LOG_LEVEL'';
                 cfg6 = (if logLevel \<noteq> '''' then cfg5\<lparr>LogLevel := logLevel\<rparr> else cfg5)
             in Inr cfg6)"

section \<open>Data model: certificates, events, monitor\<close>

text \<open>The fields of a cert-manager Certificate object that the monitor reads.\<close>

record Certificate =
  ObjectMeta_Name :: string
  ObjectMeta_Namespace :: string
  Spec_IssuerRef_Name :: string
  Spec_DNSNames :: "string list"
  Status_NotAfter :: "time option"

record PayloadCertificate =
  pc_Name :: string
  pc_Namespace :: string
  pc_Issuer :: string
  pc_DNSNames :: "string list"
  pc_ExpiresAt :: time

record NotificationPayload =
  Type :: string
  Message :: string
  Certificate :: PayloadCertificate
  Timestamp :: time

record Notifier =
  webhooks :: "WebhookConfig list"

record CertificateMonitor =
  config :: Config
  notifier :: Notifier
  notifiedCerts :: "string \<rightharpoonup> time"

section \<open>Monitor: classification and de-duplication\<close>

text \<open>
  The methods of \<^verbatim>\<open>CertificateMonitor\<close> that read or write the notified-state table.
  The monitor runs on the one goroutine of \<^verbatim>\<open>Run\<close>, so the lock around the table is
  left out, as are the log lines.
\<close>

definition isCertificateExpired :: "CertificateMonitor \<Rightarrow> Certificate \<Rightarrow> time \<Rightarrow> bool" where
  "isCertificateExpired m cert now =
     (case Status_NotAfter cert of
        None \<Rightarrow> False
      | Some notAfter \<Rightarrow> After now notAfter)"

definition isCertificateExpiring :: "CertificateMonitor \<Rightarrow> Certificate \<Rightarrow> time \<Rightarrow> bool" where
  "isCertificateExpiring m cert now =
     (case Status_NotAfter cert of
        None \<Rightarrow> False
      | Some notAfter \<Rightarrow> After (Add now (ExpirationThreshold (config m))) notAfter)"

definition shouldNotifyExpired :: "CertificateMonitor \<Rightarrow> string \<Rightarrow> time \<Rightarrow> bool" where
  "shouldNotifyExpired m certKey now =
     (case notifiedCerts m certKey of
        None \<Rightarrow> True
      | Some lastNotified \<Rightarrow> 24 * Hour \<le> Sub now lastNotified)"

definition shouldNotifyExpiring :: "CertificateMonitor \<Rightarrow> string \<Rightarrow> time \<Rightarrow> bool" where
  "shouldNotifyExpiring m certKey now =
     (case notifiedCerts m certKey of
        None \<Rightarrow> True
      | Some lastNotified \<Rightarrow> 24 * Hour \<le> Sub now lastNotified)"

definition markNotified :: "CertificateMonitor \<Rightarrow> string \<Rightarrow> time \<Rightarrow> CertificateMonitor" where
  "markNotified m certKey now = m\<lparr>notifiedCerts := (notifiedCerts m)(certKey \<mapsto> now)\<rparr>"

definition getIssuerName :: "CertificateMonitor \<Rightarrow> Certificate \<Rightarrow> string" where
  "getIssuerName m cert =
     (if Spec_IssuerRef_Name cert \<noteq> '''' then Spec_IssuerRef_Name cert else ''unknown'')"

section \<open>float64 arithmetic\<close>

text \<open>
  A finite float64 value is the rational it denotes. Every operation computes the exact
  result and rounds it to the nearest value with a 53-bit significand, ties to the even
  significand (IEEE 754 binary64 in its normal range, which holds every value the
  program computes: magnitudes between 2^-47 and 2^22, or zero).
\<close>

type_synonym float64 = rat

definition pow2 :: "int \<Rightarrow> rat" where
  "pow2 e = (if 0 \<le> e then 2 ^ nat e else 1 / 2 ^ nat (- e))"

text \<open>The binary exponent of a non-zero rational: the e with 2^e \<le> |x| < 2^(e+1).\<close>

definition f64_exponent :: "rat \<Rightarrow> int" where
  "f64_exponent x =
     (let (a, b) = quotient_of \<bar>x\<bar>;
          e0 = bitlen a - bitlen b
      in if pow2 e0 \<le> \<bar>x\<bar> then e0 else e0 - 1)"

definition round_half_even :: "rat \<Rightarrow> int" where
  "round_half_even x =
     (let f = \<lfloor>x\<rfloor>; r = x - of_int f
      in if r < 1 / 2 then f
         else if 1 / 2 < r then f + 1
         else if even f then f else f + 1)"

definition f64_round :: "rat \<Rightarrow> float64" where
  "f64_round x =
     (if x = 0 then 0
      else let q = pow2 (f64_exponent x - 52)
           in of_int (round_half_even (x / q)) * q)"

definition f64_of_int :: "int \<Rightarrow> float64" where
  "f64_of_int i = f64_round (of_int i)"

definition f64_add :: "float64 \<Rightarrow> float64 \<Rightarrow> float64" where
  "f64_add x y = f64_round (x + y)"

definition f64_div :: "float64 \<Rightarrow> float64 \<Rightarrow> float64" where
  "f64_div x y = f64_round (x / y)"

text \<open>Conversion of a float64 to an integer discards the fraction.\<close>

definition f64_to_int :: "float64 \<Rightarrow> int" where
  "f64_to_int x = (if x < 0 then - \<lfloor>- x\<rfloor> else \<lfloor>x\<rfloor>)"

text \<open>
  \<^verbatim>\<open>Duration.Hours\<close> of package time:
  \<^verbatim>\<open>hour := d / Hour; nsec := d % Hour; return float64(hour) + float64(nsec)/(60*60*1e9)\<close>,
  with Go's truncating integer division and remainder.
\<close>

definition Hours :: "duration \<Rightarrow> float64" where
  "Hours d =
     (let hour = d sdiv Hour;
          nsec = d smod Hour
      in f64_add (f64_of_int hour) (f64_div (f64_of_int nsec) 3600000000000))"

section \<open>The outside world\<close>

text \<open>
  What the program calls but does not own, over a state \<open>'w\<close> of the world: the clock
  (\<^verbatim>\<open>time.Now\<close>), the JSON encoder, the HTTP request constructor and client, and the
  list call of the cert-manager client. The HTTP client receives the destination and the
  body; the request it stands for is the POST that \<^verbatim>\<open>sendToWebhook\<close> assembles from them
  (URL, the two default headers, the destination's headers, the destination's timeout).
\<close>

record 'w Env =
  time_Now :: "'w \<Rightarrow> time \<times> 'w"
  json_Marshal :: "NotificationPayload \<Rightarrow> error + string"
  http_NewRequest :: "string \<Rightarrow> error option"
  client_Do :: "WebhookConfig \<Rightarrow> string \<Rightarrow> 'w \<Rightarrow> (error + int) \<times> 'w"
  Certificates_List :: "string \<Rightarrow> 'w \<Rightarrow> (error + Certificate list) \<times> 'w"

definition Until :: "'w Env \<Rightarrow> time \<Rightarrow> 'w \<Rightarrow> duration \<times> 'w" where
  "Until env t w = (case time_Now env w of (now, w') \<Rightarrow> (Sub t now, w'))"

section \<open>Notifier: delivery fan-out\<close>

definition NewNotifier :: "WebhookConfig list \<Rightarrow> Notifier" where
  "NewNotifier destinations = \<lparr>webhooks = destinations\<rparr>"

definition sendToWebhook ::
  "'w Env \<Rightarrow> WebhookConfig \<Rightarrow> string \<Rightarrow> 'w \<Rightarrow> error option \<times> 'w" where
  "sendToWebhook env webhook payload w =
     (case http_NewRequest env (URL webhook) of
        Some err \<Rightarrow> (Some (Errorf ''failed to create request'' (Some err)), w)
      | None \<Rightarrow>
          (case client_Do env webhook payload w of
             (Inl err, w') \<Rightarrow> (Some (Errorf ''failed to send request'' (Some err)), w')
           | (Inr statusCode, w') \<Rightarrow>
               if statusCode < 200 \<or> 300 \<le> statusCode
               then (Some (StatusError statusCode), w')
               else (None, w')))"

text \<open>
  The loop of \<^verbatim>\<open>sendNotification\<close> over the destinations, with its two variables
  \<open>lastError\<close> and \<open>successCount\<close>. The list \<open>attempts\<close> records each call of
  \<open>sendToWebhook\<close> with its outcome, in order.
\<close>

type_synonym attempts = "(WebhookConfig \<times> error option) list"

fun sendNotification_loop ::
  "'w Env \<Rightarrow> WebhookConfig list \<Rightarrow> string \<Rightarrow> error option \<Rightarrow> nat \<Rightarrow> attempts \<Rightarrow> 'w
     \<Rightarrow> error option \<times> nat \<times> attempts \<times> 'w" where
  "sendNotification_loop env [] jsonPayload lastError successCount attempts w =
     (lastError, successCount, attempts, w)"
| "sendNotification_loop env (webhook # rest) jsonPayload lastError successCount attempts w =
     (case sendToWebhook env webhook jsonPayload w of
        (Some err, w') \<Rightarrow>
          sendNotification_loop env rest jsonPayload (Some err) successCount
            (attempts @ [(webhook, Some err)]) w'
      | (None, w') \<Rightarrow>
          sendNotification_loop env rest jsonPayload lastError (successCount + 1)
            (attempts @ [(webhook, None)]) w')"

definition sendNotification ::
  "'w Env \<Rightarrow> Notifier \<Rightarrow> NotificationPayload \<Rightarrow> 'w \<Rightarrow> error option \<times> attempts \<times> 'w" where
  "sendNotification env n payload w =
     (case json_Marshal env payload of
        Inl err \<Rightarrow> (Some (Errorf ''failed to marshal notification payload'' (Some err)), [], w)
      | Inr jsonPayload \<Rightarrow>
          (case sendNotification_loop env (webhooks n) jsonPayload None 0 [] w of
             (lastError, successCount, attempts, w') \<Rightarrow>
               if successCount = 0
               then (Some (Errorf ''failed to send notification to any webhook'' lastError),
                     attempts, w')
               else (None, attempts, w')))"

text \<open>
  The two senders return, next to the error, the payload they built: the event fired.
\<close>

definition SendExpiredNotification ::
  "'w Env \<Rightarrow> Notifier \<Rightarrow> string \<Rightarrow> string \<Rightarrow> string \<Rightarrow> string list \<Rightarrow> time \<Rightarrow> 'w
     \<Rightarrow> error option \<times> NotificationPayload \<times> 'w" where
  "SendExpiredNotification env n certName namespace issuer dnsNames expiresAt w =
     (case time_Now env w of
        (timestamp, w1) \<Rightarrow>
          let payload =
                \<lparr>Type = ''expired'',
                 Message = ''Certificate '' @ namespace @ ''/'' @ certName @ '' has expired'',
                 Certificate =
                   \<lparr>pc_Name = certName, pc_Namespace = namespace, pc_Issuer = issuer,
                    pc_DNSNames = dnsNames, pc_ExpiresAt = expiresAt\<rparr>,
                 Timestamp = timestamp\<rparr>
          in (case sendNotification env n payload w1 of
                (err, attempts, w2) \<Rightarrow> (err, payload, w2)))"

definition daysUntilExpiry :: "duration \<Rightarrow> int" where
  "daysUntilExpiry remaining = f64_to_int (f64_div (Hours remaining) 24)"

definition SendExpiringNotification ::
  "'w Env \<Rightarrow> Notifier \<Rightarrow> string \<Rightarrow> string \<Rightarrow> string \<Rightarrow> string list \<Rightarrow> time \<Rightarrow> 'w
     \<Rightarrow> error option \<times> NotificationPayload \<times> 'w" where
  "SendExpiringNotification env n certName namespace issuer dnsNames expiresAt w =
     (case Until env expiresAt w of
        (remaining, w1) \<Rightarrow>
          (case time_Now env w1 of
             (timestamp, w2) \<Rightarrow>
               let payload =
                     \<lparr>Type = ''expiring'',
                      Message = ''Certificate '' @ namespace @ ''/'' @ certName
                        @ '' expires in '' @ Itoa (daysUntilExpiry remaining) @ '' days'',
                      Certificate =
                        \<lparr>pc_Name = certName, pc_Namespace = namespace, pc_Issuer = issuer,
                         pc_DNSNames = dnsNames, pc_ExpiresAt = expiresAt\<rparr>,
                      Timestamp = timestamp\<rparr>
               in (case sendNotification env n payload w2 of
                     (err, attempts, w3) \<Rightarrow> (err, payload, w3))))"

section \<open>Monitor: one certificate, one pass, the loop\<close>

text \<open>
  \<^verbatim>\<open>checkCertificate\<close> returns its error, the monitor with the table as the call leaves
  it, the events it fired and the world. The call of \<^verbatim>\<open>time.Until\<close> in the expiring
  branch reads the clock for a log field only.
\<close>

definition checkCertificate ::
  "'w Env \<Rightarrow> CertificateMonitor \<Rightarrow> Certificate \<Rightarrow> time \<Rightarrow> 'w
     \<Rightarrow> error option \<times> CertificateMonitor \<times> NotificationPayload list \<times> 'w" where
  "checkCertificate env m cert now w =
     (case Status_NotAfter cert of
        None \<Rightarrow> (None, m, [], w)
      | Some expirationTime \<Rightarrow>
          let certKey = ObjectMeta_Namespace cert @ ''/'' @ ObjectMeta_Name cert in
          if isCertificateExpired m cert now then
            (if \<not> shouldNotifyExpired m certKey now then (None, m, [], w)
             else
               (case SendExpiredNotification env (notifier m) (ObjectMeta_Name cert)
                       (ObjectMeta_Namespace cert) (getIssuerName m cert) (Spec_DNSNames cert)
                       expirationTime w of
                  (Some err, payload, w') \<Rightarrow>
                    (Some (Errorf ''failed to send expired notification'' (Some err)),
                     m, [payload], w')
                | (None, payload, w') \<Rightarrow>
                    (None, markNotified m certKey now, [payload], w')))
          else if isCertificateExpiring m cert now then
            (if \<not> shouldNotifyExpiring m certKey now then (None, m, [], w)
             else
               (case Until env expirationTime w of
                  (logged, w0) \<Rightarrow>
                    (case SendExpiringNotification env (notifier m) (ObjectMeta_Name cert)
                            (ObjectMeta_Namespace cert) (getIssuerName m cert)
                            (Spec_DNSNames cert) expirationTime w0 of
                       (Some err, payload, w') \<Rightarrow>
                         (Some (Errorf ''failed to send expiring notification'' (Some err)),
                          m, [payload], w')
                     | (None, payload, w') \<Rightarrow>
                         (None, markNotified m certKey now, [payload], w'))))
          else (None, m, [], w))"

definition NamespaceAll :: string where
  "NamespaceAll = ''''"

definition getCertificates ::
  "'w Env \<Rightarrow> CertificateMonitor \<Rightarrow> 'w \<Rightarrow> (error + Certificate list) \<times> 'w" where
  "getCertificates env m w =
     (if Namespace (config m) \<noteq> '''' then Certificates_List env (Namespace (config m)) w
      else Certificates_List env NamespaceAll w)"

text \<open>
  The loop of \<^verbatim>\<open>checkCertificates\<close> over the items: an error of one certificate is
  logged and the loop continues. \<open>events\<close> collects, per item, the events fired for it.
\<close>

fun checkCertificates_loop ::
  "'w Env \<Rightarrow> time \<Rightarrow> Certificate list \<Rightarrow> CertificateMonitor \<Rightarrow> nat \<Rightarrow> nat
     \<Rightarrow> NotificationPayload list list \<Rightarrow> 'w
     \<Rightarrow> CertificateMonitor \<times> nat \<times> nat \<times> NotificationPayload list list \<times> 'w" where
  "checkCertificates_loop env now [] m expiredCount expiringCount events w =
     (m, expiredCount, expiringCount, events, w)"
| "checkCertificates_loop env now (cert # rest) m expiredCount expiringCount events w =
     (case checkCertificate env m cert now w of
        (Some err, m', fired, w') \<Rightarrow>
          checkCertificates_loop env now rest m' expiredCount expiringCount
            (events @ [fired]) w'
      | (None, m', fired, w') \<Rightarrow>
          if isCertificateExpired m' cert now then
            checkCertificates_loop env now rest m' (expiredCount + 1) expiringCount
              (events @ [fired]) w'
          else if isCertificateExpiring m' cert now then
            checkCertificates_loop env now rest m' expiredCount (expiringCount + 1)
              (events @ [fired]) w'
          else
            checkCertificates_loop env now rest m' expiredCount expiringCount
              (events @ [fired]) w')"

definition checkCertificates ::
  "'w Env \<Rightarrow> CertificateMonitor \<Rightarrow> 'w
     \<Rightarrow> error option \<times> CertificateMonitor \<times> NotificationPayload list list \<times> 'w" where
  "checkCertificates env m w =
     (case getCertificates env m w of
        (Inl err, w1) \<Rightarrow> (Some (Errorf ''failed to get certificates'' (Some err)), m, [], w1)
      | (Inr certificates, w1) \<Rightarrow>
          (case time_Now env w1 of
             (now, w2) \<Rightarrow>
               (case checkCertificates_loop env now certificates m 0 0 [] w2 of
                  (m', expiredCount, expiringCount, events, w3) \<Rightarrow> (None, m', events, w3))))"

text \<open>
  \<^verbatim>\<open>Run\<close>: one pass at once, then one pass per firing of the ticker. The number of
  firings before cancellation is the argument \<open>ticks\<close>; an error of a pass is logged.
\<close>

fun Run_loop :: "'w Env \<Rightarrow> nat \<Rightarrow> CertificateMonitor \<Rightarrow> 'w \<Rightarrow> CertificateMonitor \<times> 'w" where
  "Run_loop env 0 m w = (m, w)"
| "Run_loop env (Suc ticks) m w =
     (case checkCertificates env m w of
        (err, m', events, w') \<Rightarrow> Run_loop env ticks m' w')"

definition Run :: "'w Env \<Rightarrow> nat \<Rightarrow> CertificateMonitor \<Rightarrow> 'w \<Rightarrow> CertificateMonitor \<times> 'w" where
  "Run env ticks m w =
     (case checkCertificates env m w of
        (err, m', events, w') \<Rightarrow> Run_loop env ticks m' w')"

section \<open>Example objects\<close>

text \<open>Concrete objects on which the theorems below are instantiated.\<close>

definition example_webhook :: "string \<Rightarrow> string \<Rightarrow> WebhookConfig" where
  "example_webhook name url = \<lparr>Name = name, URL = url, Headers = [], Timeout = 30 * Second\<rparr>"

definition example_config :: Config where
  "example_config =
     \<lparr>Webhooks = [example_webhook ''webhook-1'' ''https://example.com/hook''],
      CheckInterval = 24 * Hour, ExpirationThreshold = 720 * Hour, Namespace = '''',
      HealthPort = 8080, LogLevel = ''info''\<rparr>"

definition example_monitor :: CertificateMonitor where
  "example_monitor =
     \<lparr>config = example_config,
      notifier = \<lparr>webhooks = [example_webhook ''webhook-1'' ''https://example.com/hook'']\<rparr>,
      notifiedCerts = Map.empty\<rparr>"

definition example_cert :: "string \<Rightarrow> time option \<Rightarrow> Certificate" where
  "example_cert issuer notAfter =
     \<lparr>ObjectMeta_Name = ''test-cert'', ObjectMeta_Namespace = ''default'',
      Spec_IssuerRef_Name = issuer, Spec_DNSNames = [''example.com''],
      Status_NotAfter = notAfter\<rparr>"

text \<open>
  A world that is its own clock reading, an encoder that never fails, and an HTTP client
  that answers each destination with the status code \<open>status\<close> gives it.
\<close>

definition always :: "int \<Rightarrow> WebhookConfig \<Rightarrow> int" where
  "always code webhook = code"

definition example_env :: "(WebhookConfig \<Rightarrow> int) \<Rightarrow> Certificate list \<Rightarrow> time Env" where
  "example_env status certs =
     \<lparr>time_Now = (\<lambda>w. (w, w)),
      json_Marshal = (\<lambda>p. Inr (Message p)),
      http_NewRequest = (\<lambda>url. None),
      client_Do = (\<lambda>webhook body w. (Inr (status webhook), w)),
      Certificates_List = (\<lambda>namespace w. (Inr certs, w))\<rparr>"


definition example_notifier :: Notifier where
  "example_notifier =
     \<lparr>webhooks =
        [example_webhook ''webhook-1'' ''https://a.example/hook'',
         example_webhook ''webhook-2'' ''https://b.example/hook'',
         example_webhook ''webhook-3'' ''https://c.example/hook'']\<rparr>"


text \<open>
  Two parsers that accept a few literals and reject every other string, and an
  environment whose optional variables are all malformed.
\<close>

definition example_lib :: Stdlib where
  "example_lib =
     \<lparr>time_ParseDuration =
        (\<lambda>s. if s = ''1h'' then Inr Hour
             else if s = ''168h'' then Inr (168 * Hour)
             else if s = ''5s'' then Inr (5 * Second)
             else Inl (ExternalError (''time: invalid duration '' @ s))),
      strconv_Atoi =
        (\<lambda>s. if s = ''9090'' then Inr 9090
             else Inl (ExternalError (''strconv.Atoi: parsing '' @ s @ '': invalid syntax'')))\<rparr>"

definition example_environ :: "string \<rightharpoonup> string" where
  "example_environ =
     map_of [(''WEBHOOK_URLS'', ''https://a.example/hook, ,https://b.example/hook''),
             (''WEBHOOK_3_TIMEOUT'', ''soon''),
             (''CHECK_INTERVAL'', ''daily''),
             (''EXPIRATION_THRESHOLD'', ''30d''),
             (''HEALTH_PORT'', ''http'')]"




text \<open>The example monitor with an expiration threshold of one year.\<close>

definition example_monitor_year :: CertificateMonitor where
  "example_monitor_year =
     example_monitor\<lparr>config := example_config\<lparr>ExpirationThreshold := 8760 * Hour\<rparr>\<rparr>"

section \<open>Properties\<close>

lemmas notifier_defs =
  sendToWebhook_def sendNotification_def SendExpiredNotification_def
  SendExpiringNotification_def Until_def

lemmas monitor_defs =
  checkCertificate_def isCertificateExpired_def isCertificateExpiring_def
  shouldNotifyExpired_def shouldNotifyExpiring_def markNotified_def getIssuerName_def
  After_def Add_def checkCertificates_def getCertificates_def NamespaceAll_def

lemmas example_defs =
  example_webhook_def example_config_def example_monitor_def example_cert_def example_env_def
  always_def

subsection \<open>One certificate\<close>

lemma Send_expired_payload:
  "SendExpiredNotification env n cn ns iss dns ex w = (r, p, w') \<Longrightarrow>
     Type p = ''expired'' \<and> pc_Issuer (Certificate p) = iss"
  by (auto simp: SendExpiredNotification_def Let_def split: prod.splits)

lemma Send_expiring_payload:
  "SendExpiringNotification env n cn ns iss dns ex w = (r, p, w') \<Longrightarrow>
     Type p = ''expiring'' \<and> pc_Issuer (Certificate p) = iss"
  by (auto simp: SendExpiringNotification_def Let_def split: prod.splits)

lemma checkCertificate_fired_length:
  assumes "checkCertificate env m cert now w = (r, m', fired, w')"
  shows "length fired \<le> 1"
  using assms
  by (auto simp: checkCertificate_def Let_def split: option.splits prod.splits if_splits)

lemma checkCertificate_expired_kind:
  assumes "checkCertificate env m cert now w = (r, m', fired, w')"
    and "isCertificateExpired m cert now" and "p \<in> set fired"
  shows "Type p = ''expired''"
  using assms
  by (auto simp: checkCertificate_def Let_def dest: Send_expired_payload
      split: option.splits prod.splits if_splits)

lemma checkCertificate_monitor:
  assumes "checkCertificate env m cert now w = (r, m', fired, w')"
  shows "m' = m \<or>
    m' = markNotified m (ObjectMeta_Namespace cert @ ''/'' @ ObjectMeta_Name cert) now"
  using assms
  by (auto simp: checkCertificate_def Let_def split: option.splits prod.splits if_splits)

lemma checkCertificate_dom:
  assumes "checkCertificate env m cert now w = (r, m', fired, w')"
  shows "dom (notifiedCerts m) \<subseteq> dom (notifiedCerts m')"
  using checkCertificate_monitor [OF assms] by (auto simp: markNotified_def)

subsection \<open>One pass and the loop\<close>

lemma checkCertificates_loop_step:
  "checkCertificates_loop env now (cert # rest) m ec gc evs0 w = res \<Longrightarrow>
   \<exists>r m1 fired w1 ec1 gc1.
     checkCertificate env m cert now w = (r, m1, fired, w1) \<and>
     checkCertificates_loop env now rest m1 ec1 gc1 (evs0 @ [fired]) w1 = res"
  by (auto split: prod.splits option.splits if_splits)

lemma checkCertificates_loop_events:
  "checkCertificates_loop env now certs m ec gc evs0 w = (m', ec', gc', evs, w') \<Longrightarrow>
     \<exists>fs. evs = evs0 @ fs \<and> length fs = length certs \<and>
       (\<forall>i<length certs. \<exists>mi wi r mi' wi'.
           checkCertificate env mi (certs ! i) now wi = (r, mi', fs ! i, wi'))"
proof (induction certs arbitrary: m ec gc evs0 w)
  case Nil
  then show ?case by simp
next
  case (Cons cert rest)
  from checkCertificates_loop_step [OF Cons.prems]
  obtain r m1 fired w1 ec1 gc1 where
    one: "checkCertificate env m cert now w = (r, m1, fired, w1)" and
    more: "checkCertificates_loop env now rest m1 ec1 gc1 (evs0 @ [fired]) w1
             = (m', ec', gc', evs, w')"
    by blast
  from Cons.IH [OF more] obtain fs where
    fs: "evs = (evs0 @ [fired]) @ fs" "length fs = length rest"
      "\<forall>i<length rest. \<exists>mi wi r mi' wi'.
           checkCertificate env mi (rest ! i) now wi = (r, mi', fs ! i, wi')"
    by blast
  have "\<forall>i<length (cert # rest). \<exists>mi wi r mi' wi'.
           checkCertificate env mi ((cert # rest) ! i) now wi = (r, mi', (fired # fs) ! i, wi')"
  proof (intro allI impI)
    fix i assume i: "i < length (cert # rest)"
    show "\<exists>mi wi r mi' wi'.
           checkCertificate env mi ((cert # rest) ! i) now wi = (r, mi', (fired # fs) ! i, wi')"
    proof (cases i)
      case 0
      with one show ?thesis by (simp only: nth_Cons_0) blast
    next
      case (Suc j)
      with i have "j < length rest" by simp
      with fs(3) Suc show ?thesis by simp
    qed
  qed
  with fs(1,2) show ?case
    by (intro exI [of _ "fired # fs"]) simp
qed

lemma checkCertificates_loop_dom:
  "checkCertificates_loop env now certs m ec gc evs0 w = (m', ec', gc', evs, w') \<Longrightarrow>
     dom (notifiedCerts m) \<subseteq> dom (notifiedCerts m')"
proof (induction certs arbitrary: m ec gc evs0 w)
  case Nil
  then show ?case by simp
next
  case (Cons cert rest)
  from checkCertificates_loop_step [OF Cons.prems]
  obtain r m1 fired w1 ec1 gc1 where
    one: "checkCertificate env m cert now w = (r, m1, fired, w1)" and
    more: "checkCertificates_loop env now rest m1 ec1 gc1 (evs0 @ [fired]) w1
             = (m', ec', gc', evs, w')"
    by blast
  from checkCertificate_dom [OF one] Cons.IH [OF more] show ?case by blast
qed

lemma checkCertificates_dom:
  "checkCertificates env m w = (r, m', evs, w') \<Longrightarrow>
     dom (notifiedCerts m) \<subseteq> dom (notifiedCerts m')"
  by (auto simp: checkCertificates_def split: prod.splits sum.splits
      dest!: checkCertificates_loop_dom)

lemma Run_loop_dom:
  "Run_loop env ticks m w = (m', w') \<Longrightarrow> dom (notifiedCerts m) \<subseteq> dom (notifiedCerts m')"
proof (induction ticks arbitrary: m w)
  case 0
  then show ?case by simp
next
  case (Suc ticks)
  obtain r m1 evs w1 where one: "checkCertificates env m w = (r, m1, evs, w1)"
    by (cases "checkCertificates env m w") auto
  with Suc.prems have "Run_loop env ticks m1 w1 = (m', w')" by simp
  from Suc.IH [OF this] checkCertificates_dom [OF one] show ?case by blast
qed

lemma Run_dom:
  assumes run: "Run env ticks m w = (m', w')"
  shows "dom (notifiedCerts m) \<subseteq> dom (notifiedCerts m')"
proof -
  obtain r m1 evs w1 where one: "checkCertificates env m w = (r, m1, evs, w1)"
    by (cases "checkCertificates env m w") auto
  with run have "Run_loop env ticks m1 w1 = (m', w')" by (simp add: Run_def)
  from Run_loop_dom [OF this] checkCertificates_dom [OF one] show ?thesis by blast
qed

subsection \<open>Failed notifications\<close>

lemma checkCertificate_result:
  assumes "checkCertificate env m cert now w = (r, m', fired, w')"
  shows "(\<forall>err. r = Some err \<longrightarrow>
            m' = m \<and>
            (\<exists>p e. fired = [p] \<and>
               (err = Errorf ''failed to send expired notification'' (Some e) \<or>
                err = Errorf ''failed to send expiring notification'' (Some e))))
       \<and> (r = None \<and> fired \<noteq> [] \<longrightarrow>
            m' = markNotified m (ObjectMeta_Namespace cert @ ''/'' @ ObjectMeta_Name cert) now)
       \<and> (fired = [] \<longrightarrow> r = None \<and> m' = m)"
  using assms
  by (auto simp: checkCertificate_def Let_def split: option.splits prod.splits if_splits)

text \<open>
  C1, as the claim states it, fails. With one destination that answers 500, the delivery
  call for an expired certificate returns the error of the fan-out, and the table has no
  record for the key afterwards: the key is not recorded with the tick's instant.
\<close>

theorem failed_notification_marked_counterexample:
  "fst (checkCertificate (example_env (always 500) []) example_monitor
          (example_cert ''letsencrypt'' (Some 990)) 1000 1000)
     = Some (Errorf ''failed to send expired notification''
         (Some (Errorf ''failed to send notification to any webhook''
           (Some (StatusError 500)))))
   \<and> notifiedCerts
        (fst (snd (checkCertificate (example_env (always 500) []) example_monitor
          (example_cert ''letsencrypt'' (Some 990)) 1000 1000)))
        ''default/test-cert'' = None"
  by (simp add: monitor_defs notifier_defs example_defs)

text \<open>
  C1, amended. For a certificate that is due a notification, the outcome of the delivery
  call decides the table. When the sender returns an error, \<open>checkCertificate\<close> returns
  that error wrapped, with the monitor as it was: the key is not recorded and no cooldown
  starts, so the next pass attempts the certificate again. When the sender returns no
  error, the key is recorded with the instant of the pass. This holds for the expired and
  for the expiring branch, and whenever \<open>checkCertificate\<close> returns an error the table is
  the one it was given.
\<close>

theorem failed_notification_not_marked:
  assumes notAfter: "Status_NotAfter cert = Some expiry"
  shows
    "(\<forall>e p w'. isCertificateExpired m cert now \<longrightarrow>
        shouldNotifyExpired m (ObjectMeta_Namespace cert @ ''/'' @ ObjectMeta_Name cert) now \<longrightarrow>
        SendExpiredNotification env (notifier m) (ObjectMeta_Name cert)
          (ObjectMeta_Namespace cert) (getIssuerName m cert) (Spec_DNSNames cert) expiry w
          = (Some e, p, w') \<longrightarrow>
        checkCertificate env m cert now w
          = (Some (Errorf ''failed to send expired notification'' (Some e)), m, [p], w'))
   \<and> (\<forall>p w'. isCertificateExpired m cert now \<longrightarrow>
        shouldNotifyExpired m (ObjectMeta_Namespace cert @ ''/'' @ ObjectMeta_Name cert) now \<longrightarrow>
        SendExpiredNotification env (notifier m) (ObjectMeta_Name cert)
          (ObjectMeta_Namespace cert) (getIssuerName m cert) (Spec_DNSNames cert) expiry w
          = (None, p, w') \<longrightarrow>
        checkCertificate env m cert now w
          = (None,
             markNotified m (ObjectMeta_Namespace cert @ ''/'' @ ObjectMeta_Name cert) now,
             [p], w')
        \<and> notifiedCerts
             (markNotified m (ObjectMeta_Namespace cert @ ''/'' @ ObjectMeta_Name cert) now)
             (ObjectMeta_Namespace cert @ ''/'' @ ObjectMeta_Name cert) = Some now)
   \<and> (\<forall>e p w'. \<not> isCertificateExpired m cert now \<longrightarrow>
        isCertificateExpiring m cert now \<longrightarrow>
        shouldNotifyExpiring m (ObjectMeta_Namespace cert @ ''/'' @ ObjectMeta_Name cert) now \<longrightarrow>
        SendExpiringNotification env (notifier m) (ObjectMeta_Name cert)
          (ObjectMeta_Namespace cert) (getIssuerName m cert) (Spec_DNSNames cert) expiry
          (snd (Until env expiry w))
          = (Some e, p, w') \<longrightarrow>
        checkCertificate env m cert now w
          = (Some (Errorf ''failed to send expiring notification'' (Some e)), m, [p], w'))
   \<and> (\<forall>p w'. \<not> isCertificateExpired m cert now \<longrightarrow>
        isCertificateExpiring m cert now \<longrightarrow>
        shouldNotifyExpiring m (ObjectMeta_Namespace cert @ ''/'' @ ObjectMeta_Name cert) now \<longrightarrow>
        SendExpiringNotification env (notifier m) (ObjectMeta_Name cert)
          (ObjectMeta_Namespace cert) (getIssuerName m cert) (Spec_DNSNames cert) expiry
          (snd (Until env expiry w))
          = (None, p, w') \<longrightarrow>
        checkCertificate env m cert now w
          = (None,
             markNotified m (ObjectMeta_Namespace cert @ ''/'' @ ObjectMeta_Name cert) now,
             [p], w')
        \<and> notifiedCerts
             (markNotified m (ObjectMeta_Namespace cert @ ''/'' @ ObjectMeta_Name cert) now)
             (ObjectMeta_Namespace cert @ ''/'' @ ObjectMeta_Name cert) = Some now)
   \<and> (\<forall>err m' fired w'. checkCertificate env m cert now w = (Some err, m', fired, w') \<longrightarrow>
        m' = m \<and> notifiedCerts m' = notifiedCerts m)"
proof -
  have mark: "\<And>k. notifiedCerts (markNotified m k now) k = Some now"
    by (simp add: markNotified_def)
  have c1: "\<forall>e p w'. isCertificateExpired m cert now \<longrightarrow>
        shouldNotifyExpired m (ObjectMeta_Namespace cert @ ''/'' @ ObjectMeta_Name cert) now \<longrightarrow>
        SendExpiredNotification env (notifier m) (ObjectMeta_Name cert)
          (ObjectMeta_Namespace cert) (getIssuerName m cert) (Spec_DNSNames cert) expiry w
          = (Some e, p, w') \<longrightarrow>
        checkCertificate env m cert now w
          = (Some (Errorf ''failed to send expired notification'' (Some e)), m, [p], w')"
    by (simp add: checkCertificate_def notAfter Let_def)
  have c2: "\<forall>p w'. isCertificateExpired m cert now \<longrightarrow>
        shouldNotifyExpired m (ObjectMeta_Namespace cert @ ''/'' @ ObjectMeta_Name cert) now \<longrightarrow>
        SendExpiredNotification env (notifier m) (ObjectMeta_Name cert)
          (ObjectMeta_Namespace cert) (getIssuerName m cert) (Spec_DNSNames cert) expiry w
          = (None, p, w') \<longrightarrow>
        checkCertificate env m cert now w
          = (None,
             markNotified m (ObjectMeta_Namespace cert @ ''/'' @ ObjectMeta_Name cert) now,
             [p], w')
        \<and> notifiedCerts
             (markNotified m (ObjectMeta_Namespace cert @ ''/'' @ ObjectMeta_Name cert) now)
             (ObjectMeta_Namespace cert @ ''/'' @ ObjectMeta_Name cert) = Some now"
    by (simp add: checkCertificate_def notAfter Let_def mark)
  have c3: "\<forall>e p w'. \<not> isCertificateExpired m cert now \<longrightarrow>
        isCertificateExpiring m cert now \<longrightarrow>
        shouldNotifyExpiring m (ObjectMeta_Namespace cert @ ''/'' @ ObjectMeta_Name cert) now \<longrightarrow>
        SendExpiringNotification env (notifier m) (ObjectMeta_Name cert)
          (ObjectMeta_Namespace cert) (getIssuerName m cert) (Spec_DNSNames cert) expiry
          (snd (Until env expiry w))
          = (Some e, p, w') \<longrightarrow>
        checkCertificate env m cert now w
          = (Some (Errorf ''failed to send expiring notification'' (Some e)), m, [p], w')"
    by (simp add: checkCertificate_def notAfter Let_def split: prod.splits)
  have c4: "\<forall>p w'. \<not> isCertificateExpired m cert now \<longrightarrow>
        isCertificateExpiring m cert now \<longrightarrow>
        shouldNotifyExpiring m (ObjectMeta_Namespace cert @ ''/'' @ ObjectMeta_Name cert) now \<longrightarrow>
        SendExpiringNotification env (notifier m) (ObjectMeta_Name cert)
          (ObjectMeta_Namespace cert) (getIssuerName m cert) (Spec_DNSNames cert) expiry
          (snd (Until env expiry w))
          = (None, p, w') \<longrightarrow>
        checkCertificate env m cert now w
          = (None,
             markNotified m (ObjectMeta_Namespace cert @ ''/'' @ ObjectMeta_Name cert) now,
             [p], w')
        \<and> notifiedCerts
             (markNotified m (ObjectMeta_Namespace cert @ ''/'' @ ObjectMeta_Name cert) now)
             (ObjectMeta_Namespace cert @ ''/'' @ ObjectMeta_Name cert) = Some now"
    by (simp add: checkCertificate_def notAfter Let_def mark split: prod.splits)
  have c5: "\<forall>err m' fired w'. checkCertificate env m cert now w = (Some err, m', fired, w') \<longrightarrow>
        m' = m \<and> notifiedCerts m' = notifiedCerts m"
  proof (intro allI impI)
    fix err m' fired w'
    assume "checkCertificate env m cert now w = (Some err, m', fired, w')"
    from checkCertificate_result [OF this] have "m' = m" by simp
    then show "m' = m \<and> notifiedCerts m' = notifiedCerts m" by simp
  qed
  from c1 c2 c3 c4 c5 show ?thesis by (intro conjI)
qed

theorem failed_notification_not_marked_witness:
  "checkCertificate (example_env (always 500) []) example_monitor
      (example_cert ''letsencrypt'' (Some 990)) 1000 1000
     = (Some (Errorf ''failed to send expired notification''
          (Some (Errorf ''failed to send notification to any webhook''
            (Some (StatusError 500))))),
        example_monitor,
        [\<lparr>Type = ''expired'', Message = ''Certificate default/test-cert has expired'',
          Certificate = \<lparr>pc_Name = ''test-cert'', pc_Namespace = ''default'',
            pc_Issuer = ''letsencrypt'', pc_DNSNames = [''example.com''],
            pc_ExpiresAt = 990\<rparr>,
          Timestamp = 1000\<rparr>],
        1000)
   \<and> notifiedCerts example_monitor ''default/test-cert'' = None
   \<and> checkCertificate (example_env (always 200) []) example_monitor
      (example_cert ''letsencrypt'' (Some 990)) 1000 1000
     = (None,
        markNotified example_monitor ''default/test-cert'' 1000,
        [\<lparr>Type = ''expired'', Message = ''Certificate default/test-cert has expired'',
          Certificate = \<lparr>pc_Name = ''test-cert'', pc_Namespace = ''default'',
            pc_Issuer = ''letsencrypt'', pc_DNSNames = [''example.com''],
            pc_ExpiresAt = 990\<rparr>,
          Timestamp = 1000\<rparr>],
        1000)
   \<and> notifiedCerts (markNotified example_monitor ''default/test-cert'' 1000)
        ''default/test-cert'' = Some 1000"
proof -
  let ?cert = "example_cert ''letsencrypt'' (Some 990)"
  let ?p = "\<lparr>Type = ''expired'', Message = ''Certificate default/test-cert has expired'',
          Certificate = \<lparr>pc_Name = ''test-cert'', pc_Namespace = ''default'',
            pc_Issuer = ''letsencrypt'', pc_DNSNames = [''example.com''],
            pc_ExpiresAt = 990\<rparr>,
          Timestamp = 1000\<rparr>"
  have key: "ObjectMeta_Namespace ?cert @ ''/'' @ ObjectMeta_Name ?cert = ''default/test-cert''"
    by (simp add: example_cert_def)
  have na: "Status_NotAfter ?cert = Some 990"
    by (simp add: example_cert_def)
  have exp: "isCertificateExpired example_monitor ?cert 1000"
    by (simp add: isCertificateExpired_def After_def example_cert_def)
  have sh: "shouldNotifyExpired example_monitor
      (ObjectMeta_Namespace ?cert @ ''/'' @ ObjectMeta_Name ?cert) 1000"
    by (simp add: shouldNotifyExpired_def example_monitor_def)
  have fail: "SendExpiredNotification (example_env (always 500) []) (notifier example_monitor)
      (ObjectMeta_Name ?cert) (ObjectMeta_Namespace ?cert) (getIssuerName example_monitor ?cert)
      (Spec_DNSNames ?cert) 990 1000
     = (Some (Errorf ''failed to send notification to any webhook'' (Some (StatusError 500))),
        ?p, 1000)"
    by (simp add: notifier_defs example_defs getIssuerName_def)
  have ok: "SendExpiredNotification (example_env (always 200) []) (notifier example_monitor)
      (ObjectMeta_Name ?cert) (ObjectMeta_Namespace ?cert) (getIssuerName example_monitor ?cert)
      (Spec_DNSNames ?cert) 990 1000
     = (None, ?p, 1000)"
    by (simp add: notifier_defs example_defs getIssuerName_def)
  note a = failed_notification_not_marked [OF na, THEN conjunct1, rule_format, OF exp sh fail]
  note b = failed_notification_not_marked [OF na, THEN conjunct2, THEN conjunct1, rule_format,
      OF exp sh ok]
  have c: "notifiedCerts example_monitor ''default/test-cert'' = None"
    by (simp add: example_monitor_def)
  from a b [THEN conjunct1] c b [THEN conjunct2] show ?thesis
    unfolding key by (intro conjI)
qed

subsection \<open>De-duplication\<close>

lemma Sub_ge_iff:
  "d \<le> maxDuration \<Longrightarrow> minDuration < d \<Longrightarrow> (d \<le> Sub t u) = (d \<le> t - u)"
  by (auto simp: Sub_def)

lemma day_in_range: "24 * Hour \<le> maxDuration \<and> minDuration < 24 * Hour"
  by (simp add: Hour_def Minute_def Second_def maxDuration_def minDuration_def)

text \<open>
  C3. The de-duplication check, in both of its copies, answers true exactly when the table
  has no record for the key or the recorded instant lies at least 24 hours before now.
  A record written at T blocks a check at T + 23h59m and admits one at T + 24h.
\<close>

theorem shouldNotify_iff:
  "shouldNotifyExpired m k now =
     (notifiedCerts m k = None \<or> (\<exists>t. notifiedCerts m k = Some t \<and> 24 * Hour \<le> now - t))
   \<and> shouldNotifyExpiring m k now =
     (notifiedCerts m k = None \<or> (\<exists>t. notifiedCerts m k = Some t \<and> 24 * Hour \<le> now - t))
   \<and> shouldNotifyExpired (markNotified m k T) k (T + 23 * Hour + 59 * Minute) = False
   \<and> shouldNotifyExpiring (markNotified m k T) k (T + 23 * Hour + 59 * Minute) = False
   \<and> shouldNotifyExpired (markNotified m k T) k (T + 24 * Hour) = True
   \<and> shouldNotifyExpiring (markNotified m k T) k (T + 24 * Hour) = True"
proof -
  have cmp: "\<And>t u. (24 * Hour \<le> Sub t u) = (24 * Hour \<le> t - u)"
    using day_in_range by (simp add: Sub_ge_iff)
  have a: "shouldNotifyExpired m k now =
     (notifiedCerts m k = None \<or> (\<exists>t. notifiedCerts m k = Some t \<and> 24 * Hour \<le> now - t))"
    by (cases "notifiedCerts m k") (simp_all add: shouldNotifyExpired_def cmp)
  have b: "shouldNotifyExpiring m k now =
     (notifiedCerts m k = None \<or> (\<exists>t. notifiedCerts m k = Some t \<and> 24 * Hour \<le> now - t))"
    by (cases "notifiedCerts m k") (simp_all add: shouldNotifyExpiring_def cmp)
  have c: "shouldNotifyExpired (markNotified m k T) k (T + 23 * Hour + 59 * Minute) = False"
    unfolding shouldNotifyExpired_def markNotified_def
    by (simp add: cmp) (simp add: Hour_def Minute_def Second_def)
  have d: "shouldNotifyExpiring (markNotified m k T) k (T + 23 * Hour + 59 * Minute) = False"
    unfolding shouldNotifyExpiring_def markNotified_def
    by (simp add: cmp) (simp add: Hour_def Minute_def Second_def)
  have e: "shouldNotifyExpired (markNotified m k T) k (T + 24 * Hour) = True"
    by (simp add: shouldNotifyExpired_def markNotified_def cmp)
  have f: "shouldNotifyExpiring (markNotified m k T) k (T + 24 * Hour) = True"
    by (simp add: shouldNotifyExpiring_def markNotified_def cmp)
  from a b c d e f show ?thesis by blast
qed

theorem shouldNotify_iff_witness:
  "shouldNotifyExpired (markNotified example_monitor ''default/test-cert'' 1000)
      ''default/test-cert'' (1000 + 23 * Hour + 59 * Minute) = False
   \<and> shouldNotifyExpiring (markNotified example_monitor ''default/test-cert'' 1000)
      ''default/test-cert'' (1000 + 24 * Hour) = True"
  using shouldNotify_iff [of example_monitor "''default/test-cert''" 0 1000]
  by (intro conjI) (elim conjE, assumption)+

subsection \<open>Classification\<close>

text \<open>
  C6. A certificate with no expiry instant is classified as neither expired nor expiring,
  and checking it fires nothing and changes neither the table nor the world. A certificate
  with an expiry instant is expired exactly when now is after it, and expiring exactly when
  now plus the configured expiration threshold is after it.
\<close>

theorem classification:
  "(Status_NotAfter cert = None \<longrightarrow>
      \<not> isCertificateExpired m cert now \<and> \<not> isCertificateExpiring m cert now \<and>
      checkCertificate env m cert now w = (None, m, [], w))
   \<and> (\<forall>expiry. Status_NotAfter cert = Some expiry \<longrightarrow>
        isCertificateExpired m cert now = (expiry < now) \<and>
        isCertificateExpiring m cert now = (expiry < now + ExpirationThreshold (config m)))"
  by (simp add: isCertificateExpired_def isCertificateExpiring_def checkCertificate_def
      After_def Add_def)

theorem classification_witness:
  "Status_NotAfter (example_cert ''letsencrypt'' None) = None
   \<and> \<not> isCertificateExpired example_monitor (example_cert ''letsencrypt'' None) 1000
   \<and> \<not> isCertificateExpiring example_monitor (example_cert ''letsencrypt'' None) 1000
   \<and> checkCertificate (example_env (always 200) []) example_monitor
        (example_cert ''letsencrypt'' None) 1000 1000 = (None, example_monitor, [], 1000)
   \<and> Status_NotAfter (example_cert ''letsencrypt'' (Some (1000 + 100 * Hour)))
        = Some (1000 + 100 * Hour)
   \<and> isCertificateExpired example_monitor
        (example_cert ''letsencrypt'' (Some (1000 + 100 * Hour))) 1000 = False
   \<and> isCertificateExpiring example_monitor
        (example_cert ''letsencrypt'' (Some (1000 + 100 * Hour))) 1000 = True"
proof -
  have none: "Status_NotAfter (example_cert ''letsencrypt'' None) = None"
    by (simp add: example_cert_def)
  have some: "Status_NotAfter (example_cert ''letsencrypt'' (Some (1000 + 100 * Hour)))
        = Some (1000 + 100 * Hour)"
    by (simp add: example_cert_def)
  have thr: "ExpirationThreshold (config example_monitor) = 720 * Hour"
    by (simp add: example_monitor_def example_config_def)
  have pos: "0 < Hour"
    by (simp add: Hour_def Minute_def Second_def)
  from classification [of "example_cert ''letsencrypt'' None" example_monitor 1000
        "example_env (always 200) []" 1000] none
  have a: "\<not> isCertificateExpired example_monitor (example_cert ''letsencrypt'' None) 1000
   \<and> \<not> isCertificateExpiring example_monitor (example_cert ''letsencrypt'' None) 1000
   \<and> checkCertificate (example_env (always 200) []) example_monitor
        (example_cert ''letsencrypt'' None) 1000 1000 = (None, example_monitor, [], 1000)"
    by blast
  from classification [of "example_cert ''letsencrypt'' (Some (1000 + 100 * Hour))"
        example_monitor 1000] some thr pos
  have b: "isCertificateExpired example_monitor
        (example_cert ''letsencrypt'' (Some (1000 + 100 * Hour))) 1000 = False
   \<and> isCertificateExpiring example_monitor
        (example_cert ''letsencrypt'' (Some (1000 + 100 * Hour))) 1000 = True"
    by simp
  from none some a b show ?thesis by blast
qed

subsection \<open>Expired before expiring\<close>

text \<open>
  C2. In one pass over the listed certificates, an item whose expiry instant is both
  before now and before now plus the threshold has at most one event fired for it, and an
  event fired for it has the kind "expired". The pass handles each item once.
\<close>

theorem expired_fires_alone:
  assumes "getCertificates env m w = (Inr certs, w1)"
    and "time_Now env w1 = (now, w2)"
    and "checkCertificates env m w = (err, m', events, w')"
    and "i < length certs"
    and "Status_NotAfter (certs ! i) = Some expiry"
    and "expiry < now"
    and "expiry < now + ExpirationThreshold (config m)"
  shows "length events = length certs
       \<and> length (events ! i) \<le> 1
       \<and> (\<forall>p \<in> set (events ! i). Type p = ''expired'')"
proof -
  from assms(1,2,3) obtain m1 ec gc where
    loop: "checkCertificates_loop env now certs m 0 0 [] w2 = (m1, ec, gc, events, w')"
    by (auto simp: checkCertificates_def split: prod.splits)
  from checkCertificates_loop_events [OF loop] assms(4)
  obtain mi wi r mi' wi' where
    len: "length events = length certs" and
    one: "checkCertificate env mi (certs ! i) now wi = (r, mi', events ! i, wi')"
    by auto
  have expired: "isCertificateExpired mi (certs ! i) now"
    using assms(5,6) by (simp add: isCertificateExpired_def After_def)
  from checkCertificate_fired_length [OF one] checkCertificate_expired_kind [OF one expired] len
  show ?thesis by blast
qed

theorem expired_fires_alone_witness:
  "getCertificates (example_env (always 200) [example_cert ''letsencrypt'' (Some 990)])
      example_monitor 1000 = (Inr [example_cert ''letsencrypt'' (Some 990)], 1000)
   \<and> time_Now (example_env (always 200) [example_cert ''letsencrypt'' (Some 990)]) 1000
      = (1000, 1000)
   \<and> (0 :: nat) < length [example_cert ''letsencrypt'' (Some 990)]
   \<and> Status_NotAfter ([example_cert ''letsencrypt'' (Some 990)] ! 0) = Some 990
   \<and> (990 :: int) < 1000
   \<and> 990 < 1000 + ExpirationThreshold (config example_monitor)
   \<and> map (map Type)
       (fst (snd (snd (checkCertificates
          (example_env (always 200) [example_cert ''letsencrypt'' (Some 990)])
          example_monitor 1000)))) = [[''expired'']]"
proof -
  let ?certs = "[example_cert ''letsencrypt'' (Some 990)]"
  let ?env = "example_env (always 200) ?certs"
  let ?res = "checkCertificates ?env example_monitor 1000"
  have h1: "getCertificates ?env example_monitor 1000 = (Inr ?certs, 1000)"
    by (simp add: monitor_defs example_defs)
  have h2: "time_Now ?env 1000 = (1000, 1000)"
    by (simp add: example_env_def)
  have h3: "?res = (fst ?res, fst (snd ?res), fst (snd (snd ?res)), snd (snd (snd ?res)))"
    by simp
  have h4: "(0 :: nat) < length ?certs"
    by simp
  have h5: "Status_NotAfter (?certs ! 0) = Some 990"
    by (simp add: example_cert_def)
  have h6: "(990 :: int) < 1000"
    by simp
  have h7: "990 < 1000 + ExpirationThreshold (config example_monitor)"
    by (simp add: example_monitor_def example_config_def Hour_def Minute_def Second_def)
  have ev: "map (map Type) (fst (snd (snd ?res))) = [[''expired'']]"
    by (simp add: monitor_defs notifier_defs example_defs)
  from expired_fires_alone [OF h1 h2 h3 h4 h5 h6 h7] h1 h2 h4 h5 h6 h7 ev
  show ?thesis by blast
qed

subsection \<open>The notified-state table\<close>

text \<open>
  C8. The table is a map from the composite key to one instant. Marking a key replaces
  the instant of that key and leaves every other key as it was; no step removes a key:
  the key set after marking, after checking one certificate, after one pass and after a
  run of any number of passes contains the key set before.
\<close>

theorem table_overwrites_and_grows:
  "notifiedCerts (markNotified m k t) k = Some t
   \<and> (\<forall>k'. k' \<noteq> k \<longrightarrow> notifiedCerts (markNotified m k t) k' = notifiedCerts m k')
   \<and> dom (notifiedCerts (markNotified m k t)) = insert k (dom (notifiedCerts m))
   \<and> dom (notifiedCerts m)
       \<subseteq> dom (notifiedCerts (fst (snd (checkCertificate env m cert now w))))
   \<and> dom (notifiedCerts m) \<subseteq> dom (notifiedCerts (fst (snd (checkCertificates env m w))))
   \<and> dom (notifiedCerts m) \<subseteq> dom (notifiedCerts (fst (Run env ticks m w)))"
proof -
  let ?one = "checkCertificate env m cert now w"
  let ?pass = "checkCertificates env m w"
  let ?run = "Run env ticks m w"
  have "?one = (fst ?one, fst (snd ?one), fst (snd (snd ?one)), snd (snd (snd ?one)))"
    by simp
  then have a: "dom (notifiedCerts m) \<subseteq> dom (notifiedCerts (fst (snd ?one)))"
    by (rule checkCertificate_dom)
  have "?pass = (fst ?pass, fst (snd ?pass), fst (snd (snd ?pass)), snd (snd (snd ?pass)))"
    by simp
  then have b: "dom (notifiedCerts m) \<subseteq> dom (notifiedCerts (fst (snd ?pass)))"
    by (rule checkCertificates_dom)
  have "?run = (fst ?run, snd ?run)"
    by simp
  then have c: "dom (notifiedCerts m) \<subseteq> dom (notifiedCerts (fst ?run))"
    by (rule Run_dom)
  have d: "notifiedCerts (markNotified m k t) k = Some t"
    by (simp add: markNotified_def)
  have e: "\<forall>k'. k' \<noteq> k \<longrightarrow> notifiedCerts (markNotified m k t) k' = notifiedCerts m k'"
    by (simp add: markNotified_def)
  have f: "dom (notifiedCerts (markNotified m k t)) = insert k (dom (notifiedCerts m))"
    by (simp add: markNotified_def)
  from a b c d e f show ?thesis by blast
qed

theorem table_overwrites_and_grows_witness:
  "notifiedCerts (markNotified (markNotified example_monitor ''default/test-cert'' 1000)
      ''default/test-cert'' 2000) ''default/test-cert'' = Some 2000
   \<and> notifiedCerts (markNotified (markNotified example_monitor ''default/test-cert'' 1000)
      ''default/other'' 2000) ''default/test-cert'' = Some 1000
   \<and> ''default/test-cert'' \<in> dom (notifiedCerts (fst
        (Run (example_env (always 200) []) 3
           (markNotified example_monitor ''default/test-cert'' 1000) 5000)))"
proof -
  let ?m = "markNotified example_monitor ''default/test-cert'' 1000"
  have ne: "''default/test-cert'' \<noteq> ''default/other''"
    by simp
  have d: "''default/test-cert'' \<in> dom (notifiedCerts ?m)"
    by (simp add: markNotified_def)
  note inst = table_overwrites_and_grows [where m = ?m and t = 2000
      and env = "example_env (always 200) []" and w = 5000 and ticks = 3
      and cert = "example_cert ''letsencrypt'' None" and now = 5000]
  have a: "notifiedCerts (markNotified ?m ''default/test-cert'' 2000) ''default/test-cert''
      = Some 2000"
    by (rule inst [where k = "''default/test-cert''", THEN conjunct1])
  have "notifiedCerts (markNotified ?m ''default/other'' 2000) ''default/test-cert''
      = notifiedCerts ?m ''default/test-cert''"
    by (rule inst [where k = "''default/other''", THEN conjunct2, THEN conjunct1,
          rule_format, OF ne])
  then have b: "notifiedCerts (markNotified ?m ''default/other'' 2000) ''default/test-cert''
      = Some 1000"
    by (simp add: markNotified_def)
  have c: "''default/test-cert'' \<in> dom (notifiedCerts (fst
        (Run (example_env (always 200) []) 3 ?m 5000)))"
    by (rule subsetD [OF inst [where k = "''default/other''", THEN conjunct2, THEN conjunct2,
          THEN conjunct2, THEN conjunct2, THEN conjunct2] d])
  from a b c show ?thesis by (intro conjI)
qed

subsection \<open>The issuer field\<close>

text \<open>
  C10. Every event fired for a certificate, of either kind, carries in its issuer field
  the string "unknown" when the certificate's issuer reference name is empty, and the
  issuer reference name otherwise.
\<close>

theorem issuer_field:
  assumes "checkCertificate env m cert now w = (r, m', fired, w')"
    and "p \<in> set fired"
  shows "(Type p = ''expired'' \<or> Type p = ''expiring'')
       \<and> pc_Issuer (Certificate p) =
           (if Spec_IssuerRef_Name cert = '''' then ''unknown'' else Spec_IssuerRef_Name cert)"
  using assms
  by (auto simp: checkCertificate_def getIssuerName_def Let_def
      dest: Send_expired_payload Send_expiring_payload
      split: option.splits prod.splits if_splits)

theorem issuer_field_witness:
  "hd (fst (snd (snd (checkCertificate (example_env (always 200) []) example_monitor
          (example_cert '''' (Some 990)) 1000 1000))))
     \<in> set (fst (snd (snd (checkCertificate (example_env (always 200) []) example_monitor
          (example_cert '''' (Some 990)) 1000 1000))))
   \<and> Type (hd (fst (snd (snd (checkCertificate (example_env (always 200) [])
          example_monitor (example_cert '''' (Some 990)) 1000 1000))))) = ''expired''
   \<and> pc_Issuer (Certificate (hd (fst (snd (snd (checkCertificate
          (example_env (always 200) []) example_monitor
          (example_cert '''' (Some 990)) 1000 1000)))))) = ''unknown''
   \<and> hd (fst (snd (snd (checkCertificate (example_env (always 200) []) example_monitor
          (example_cert ''letsencrypt'' (Some (1000 + 36 * Hour))) 1000 1000))))
     \<in> set (fst (snd (snd (checkCertificate (example_env (always 200) []) example_monitor
          (example_cert ''letsencrypt'' (Some (1000 + 36 * Hour))) 1000 1000))))
   \<and> Type (hd (fst (snd (snd (checkCertificate (example_env (always 200) [])
          example_monitor (example_cert ''letsencrypt'' (Some (1000 + 36 * Hour)))
          1000 1000))))) = ''expiring''
   \<and> pc_Issuer (Certificate (hd (fst (snd (snd (checkCertificate
          (example_env (always 200) []) example_monitor
          (example_cert ''letsencrypt'' (Some (1000 + 36 * Hour))) 1000 1000))))))
       = ''letsencrypt''"
proof -
  let ?env = "example_env (always 200) []"
  let ?A = "checkCertificate ?env example_monitor (example_cert '''' (Some 990)) 1000 1000"
  let ?B = "checkCertificate ?env example_monitor
              (example_cert ''letsencrypt'' (Some (1000 + 36 * Hour))) 1000 1000"
  have pos: "0 < Hour"
    by (simp add: Hour_def Minute_def Second_def)
  have runA: "?A = (fst ?A, fst (snd ?A), fst (snd (snd ?A)), snd (snd (snd ?A)))"
    by simp
  have memA: "hd (fst (snd (snd ?A))) \<in> set (fst (snd (snd ?A)))"
    by (simp add: monitor_defs notifier_defs example_defs)
  have kindA: "Type (hd (fst (snd (snd ?A)))) = ''expired''"
    by (simp add: monitor_defs notifier_defs example_defs)
  have nameA: "Spec_IssuerRef_Name (example_cert '''' (Some 990)) = ''''"
    by (simp add: example_cert_def)
  have runB: "?B = (fst ?B, fst (snd ?B), fst (snd (snd ?B)), snd (snd (snd ?B)))"
    by simp
  have memB: "hd (fst (snd (snd ?B))) \<in> set (fst (snd (snd ?B)))"
    using pos by (simp add: monitor_defs notifier_defs example_defs)
  have kindB: "Type (hd (fst (snd (snd ?B)))) = ''expiring''"
    using pos by (simp add: monitor_defs notifier_defs example_defs)
  have nameB: "Spec_IssuerRef_Name (example_cert ''letsencrypt'' (Some (1000 + 36 * Hour)))
      = ''letsencrypt''"
    by (simp add: example_cert_def)
  have issA: "pc_Issuer (Certificate (hd (fst (snd (snd ?A))))) = ''unknown''"
    using issuer_field [OF runA memA, THEN conjunct2] nameA by simp
  have issB: "pc_Issuer (Certificate (hd (fst (snd (snd ?B))))) = ''letsencrypt''"
    using issuer_field [OF runB memB, THEN conjunct2] nameB by simp
  from memA kindA issA memB kindB issB show ?thesis
    by (intro conjI)
qed

subsection \<open>Delivery fan-out\<close>








subsection \<open>Configuration loading\<close>

lemma loadWebhooks_loop_length:
  "length (loadWebhooks_loop lib environ i pieces acc)
     = length acc + length (filter (\<lambda>u. TrimSpace u \<noteq> '''') pieces)"
  by (induction pieces arbitrary: i acc) (simp_all add: Let_def)

lemma loadWebhooks_loop_Nil:
  "(loadWebhooks_loop lib environ i pieces [] = []) = (\<forall>u\<in>set pieces. TrimSpace u = '''')"
proof -
  have "(loadWebhooks_loop lib environ i pieces [] = [])
      = (length (loadWebhooks_loop lib environ i pieces []) = 0)"
    by simp
  also have "\<dots> = (\<forall>u\<in>set pieces. TrimSpace u = '''')"
    by (simp only: loadWebhooks_loop_length) (simp add: filter_empty_conv)
  finally show ?thesis .
qed

lemma loadWebhooks_isl:
  "isl (loadWebhooks lib environ) =
     (Getenv environ ''WEBHOOK_URLS'' = '''' \<or>
      (\<forall>u\<in>set (Split (Getenv environ ''WEBHOOK_URLS'') CHR '',''). TrimSpace u = ''''))"
  by (simp add: loadWebhooks_def Let_def loadWebhooks_loop_Nil)

lemma loadWebhooks_nonempty:
  "loadWebhooks lib environ = Inr ws \<Longrightarrow> ws \<noteq> []"
  by (auto simp: loadWebhooks_def Let_def split: if_splits)

lemma Load_Inl:
  "loadWebhooks lib environ = Inl e \<Longrightarrow>
     Load lib environ = Inl (Errorf ''failed to load webhooks'' (Some e))"
  by (simp add: Load_def)

lemma Load_Inr:
  "loadWebhooks lib environ = Inr ws \<Longrightarrow>
     \<exists>cfg. Load lib environ = Inr cfg \<and> Webhooks cfg = ws"
  by (simp add: Load_def Let_def split: sum.splits)

lemma Load_isl: "isl (Load lib environ) = isl (loadWebhooks lib environ)"
  by (cases "loadWebhooks lib environ") (auto dest: Load_Inl Load_Inr)

lemma Getenv_empty_iff:
  "(Getenv environ key = '''') = (environ key = None \<or> environ key = Some '''')"
  by (simp add: Getenv_def split: option.splits)

text \<open>
  C7. Loading the configuration returns an error exactly when \<^verbatim>\<open>WEBHOOK_URLS\<close> is not
  set, is empty, or has only blank entries between its commas (entries that
  \<^verbatim>\<open>strings.TrimSpace\<close> empties). A configuration that loads has at least one
  destination, and so has the notifier built from it.
\<close>

theorem Load_requires_destinations:
  "(\<exists>err. Load lib environ = Inl err) =
     (environ ''WEBHOOK_URLS'' = None \<or>
      (\<exists>urls. environ ''WEBHOOK_URLS'' = Some urls \<and>
         (urls = '''' \<or> (\<forall>u\<in>set (Split urls CHR '',''). TrimSpace u = ''''))))
   \<and> (\<forall>cfg. Load lib environ = Inr cfg \<longrightarrow>
         Webhooks cfg \<noteq> [] \<and> webhooks (NewNotifier (Webhooks cfg)) \<noteq> [])"
proof -
  have "(\<exists>err. Load lib environ = Inl err) = isl (Load lib environ)"
    by (cases "Load lib environ") simp_all
  also have "\<dots> = (Getenv environ ''WEBHOOK_URLS'' = '''' \<or>
      (\<forall>u\<in>set (Split (Getenv environ ''WEBHOOK_URLS'') CHR '',''). TrimSpace u = ''''))"
    by (simp only: Load_isl loadWebhooks_isl)
  also have "\<dots> = (environ ''WEBHOOK_URLS'' = None \<or>
      (\<exists>urls. environ ''WEBHOOK_URLS'' = Some urls \<and>
         (urls = '''' \<or> (\<forall>u\<in>set (Split urls CHR '',''). TrimSpace u = ''''))))"
    by (cases "environ ''WEBHOOK_URLS''") (simp_all add: Getenv_def)
  finally have a: "(\<exists>err. Load lib environ = Inl err) =
     (environ ''WEBHOOK_URLS'' = None \<or>
      (\<exists>urls. environ ''WEBHOOK_URLS'' = Some urls \<and>
         (urls = '''' \<or> (\<forall>u\<in>set (Split urls CHR '',''). TrimSpace u = ''''))))" .
  have b: "\<forall>cfg. Load lib environ = Inr cfg \<longrightarrow>
         Webhooks cfg \<noteq> [] \<and> webhooks (NewNotifier (Webhooks cfg)) \<noteq> []"
  proof (intro allI impI)
    fix cfg assume ok: "Load lib environ = Inr cfg"
    then obtain ws where ws: "loadWebhooks lib environ = Inr ws"
      by (cases "loadWebhooks lib environ") (auto dest: Load_Inl)
    from Load_Inr [OF ws] ok have "Webhooks cfg = ws" by auto
    with loadWebhooks_nonempty [OF ws]
    show "Webhooks cfg \<noteq> [] \<and> webhooks (NewNotifier (Webhooks cfg)) \<noteq> []"
      by (simp add: NewNotifier_def)
  qed
  from a b show ?thesis by (intro conjI)
qed

theorem Load_requires_destinations_witness:
  "(\<exists>err. Load example_lib Map.empty = Inl err)
   \<and> (\<exists>err. Load example_lib (map_of [(''WEBHOOK_URLS'', '' , '')]) = Inl err)
   \<and> Load example_lib example_environ =
       Inr \<lparr>Webhooks =
            [\<lparr>Name = ''webhook-1'', URL = ''https://a.example/hook'', Headers = [],
              Timeout = 30 * Second\<rparr>,
             \<lparr>Name = ''webhook-3'', URL = ''https://b.example/hook'', Headers = [],
              Timeout = 30 * Second\<rparr>],
            CheckInterval = 24 * Hour, ExpirationThreshold = 720 * Hour, Namespace = '''',
            HealthPort = 8080, LogLevel = ''info''\<rparr>
   \<and> webhooks (NewNotifier
         [\<lparr>Name = ''webhook-1'', URL = ''https://a.example/hook'', Headers = [],
              Timeout = 30 * Second\<rparr>,
          \<lparr>Name = ''webhook-3'', URL = ''https://b.example/hook'', Headers = [],
              Timeout = 30 * Second\<rparr>]) \<noteq> []"
proof -
  let ?blank = "map_of [(''WEBHOOK_URLS'', '' , '')]"
  have unset: "(Map.empty :: string \<rightharpoonup> string) ''WEBHOOK_URLS'' = None"
    by simp
  have set: "?blank ''WEBHOOK_URLS'' = Some '' , ''"
    by simp
  have blank: "\<forall>u\<in>set (Split '' , '' CHR '',''). TrimSpace u = ''''"
    by code_simp
  have a: "\<exists>err. Load example_lib Map.empty = Inl err"
    using Load_requires_destinations [of example_lib Map.empty, THEN conjunct1] unset
    by simp
  have b: "\<exists>err. Load example_lib ?blank = Inl err"
    using Load_requires_destinations [of example_lib ?blank, THEN conjunct1] set blank
    by simp
  have c: "Load example_lib example_environ =
       Inr \<lparr>Webhooks =
            [\<lparr>Name = ''webhook-1'', URL = ''https://a.example/hook'', Headers = [],
              Timeout = 30 * Second\<rparr>,
             \<lparr>Name = ''webhook-3'', URL = ''https://b.example/hook'', Headers = [],
              Timeout = 30 * Second\<rparr>],
            CheckInterval = 24 * Hour, ExpirationThreshold = 720 * Hour, Namespace = '''',
            HealthPort = 8080, LogLevel = ''info''\<rparr>"
    by code_simp
  from Load_requires_destinations [of example_lib example_environ, THEN conjunct2,
      rule_format, OF c, THEN conjunct2]
  have d: "webhooks (NewNotifier
         [\<lparr>Name = ''webhook-1'', URL = ''https://a.example/hook'', Headers = [],
              Timeout = 30 * Second\<rparr>,
          \<lparr>Name = ''webhook-3'', URL = ''https://b.example/hook'', Headers = [],
              Timeout = 30 * Second\<rparr>]) \<noteq> []"
    by simp
  from a b c d show ?thesis by (intro conjI)
qed

lemma Load_fields:
  assumes ok: "Load lib environ = Inr cfg"
  shows "CheckInterval cfg =
     (if Getenv environ ''CHECK_INTERVAL'' \<noteq> '''' then
        (case time_ParseDuration lib (Getenv environ ''CHECK_INTERVAL'') of
           Inr d \<Rightarrow> d | Inl e \<Rightarrow> 24 * Hour)
      else 24 * Hour)"
    and "ExpirationThreshold cfg =
     (if Getenv environ ''EXPIRATION_THRESHOLD'' \<noteq> '''' then
        (case time_ParseDuration lib (Getenv environ ''EXPIRATION_THRESHOLD'') of
           Inr d \<Rightarrow> d | Inl e \<Rightarrow> 720 * Hour)
      else 720 * Hour)"
    and "HealthPort cfg =
     (if Getenv environ ''HEALTH_PORT'' \<noteq> '''' then
        (case strconv_Atoi lib (Getenv environ ''HEALTH_PORT'') of
           Inr p \<Rightarrow> p | Inl e \<Rightarrow> 8080)
      else 8080)"
proof -
  from ok obtain ws where ws: "loadWebhooks lib environ = Inr ws"
    by (cases "loadWebhooks lib environ") (auto dest: Load_Inl)
  from ok have cfg: "Inr cfg = Load lib environ" by simp
  have eq: "\<And>f. f cfg = f (projr (Load lib environ))"
    by (simp add: ok)
  show "CheckInterval cfg =
     (if Getenv environ ''CHECK_INTERVAL'' \<noteq> '''' then
        (case time_ParseDuration lib (Getenv environ ''CHECK_INTERVAL'') of
           Inr d \<Rightarrow> d | Inl e \<Rightarrow> 24 * Hour)
      else 24 * Hour)"
    unfolding eq [of CheckInterval] by (simp add: Load_def Let_def ws split: sum.split)
  show "ExpirationThreshold cfg =
     (if Getenv environ ''EXPIRATION_THRESHOLD'' \<noteq> '''' then
        (case time_ParseDuration lib (Getenv environ ''EXPIRATION_THRESHOLD'') of
           Inr d \<Rightarrow> d | Inl e \<Rightarrow> 720 * Hour)
      else 720 * Hour)"
    unfolding eq [of ExpirationThreshold] by (simp add: Load_def Let_def ws split: sum.split)
  show "HealthPort cfg =
     (if Getenv environ ''HEALTH_PORT'' \<noteq> '''' then
        (case strconv_Atoi lib (Getenv environ ''HEALTH_PORT'') of
           Inr p \<Rightarrow> p | Inl e \<Rightarrow> 8080)
      else 8080)"
    unfolding eq [of HealthPort] by (simp add: Load_def Let_def ws split: sum.split)
qed

lemma loadWebhooks_loop_timeout:
  "wh \<in> set (loadWebhooks_loop lib environ i pieces acc) \<Longrightarrow>
     wh \<in> set acc \<or>
     (\<exists>j. Name wh = ''webhook-'' @ Itoa (int j + 1) \<and>
        ((Getenv environ (''WEBHOOK_'' @ Itoa (int j + 1) @ ''_TIMEOUT'') = '''' \<or>
          isl (time_ParseDuration lib
                 (Getenv environ (''WEBHOOK_'' @ Itoa (int j + 1) @ ''_TIMEOUT''))))
         \<longrightarrow> Timeout wh = 30 * Second))"
proof (induction pieces arbitrary: i acc)
  case Nil
  then show ?case by simp
next
  case (Cons piece rest)
  show ?case
  proof (cases "TrimSpace piece = ''''")
    case True
    with Cons.prems have "wh \<in> set (loadWebhooks_loop lib environ (i + 1) rest acc)"
      by simp
    from Cons.IH [OF this] show ?thesis .
  next
    case False
    let ?t = "Getenv environ (''WEBHOOK_'' @ Itoa (int i + 1) @ ''_TIMEOUT'')"
    from False Cons.prems obtain added where
      mem: "wh \<in> set (loadWebhooks_loop lib environ (i + 1) rest (acc @ [added]))" and
      name: "Name added = ''webhook-'' @ Itoa (int i + 1)" and
      timeout: "(?t = '''' \<or> isl (time_ParseDuration lib ?t)) \<longrightarrow> Timeout added = 30 * Second"
      by (auto simp: Let_def split: sum.splits)
    from Cons.IH [OF mem] name timeout show ?thesis
      by auto
  qed
qed

text \<open>
  C9. Whether loading returns an error depends on \<^verbatim>\<open>WEBHOOK_URLS\<close> alone, never on an
  optional variable. In a configuration that loads, \<^verbatim>\<open>CHECK_INTERVAL\<close>,
  \<^verbatim>\<open>EXPIRATION_THRESHOLD\<close> and \<^verbatim>\<open>HEALTH_PORT\<close> keep their defaults (24 hours, 720
  hours, 8080) when the variable is unset, empty or rejected by its parser, and every
  destination, named webhook-N, keeps the timeout of 30 seconds when
  \<^verbatim>\<open>WEBHOOK_N_TIMEOUT\<close> is unset, empty or rejected by the duration parser.
\<close>

theorem malformed_optionals_ignored:
  "(\<exists>err. Load lib environ = Inl err) =
     (Getenv environ ''WEBHOOK_URLS'' = '''' \<or>
      (\<forall>u\<in>set (Split (Getenv environ ''WEBHOOK_URLS'') CHR '',''). TrimSpace u = ''''))
   \<and> (\<forall>cfg. Load lib environ = Inr cfg \<longrightarrow>
        ((Getenv environ ''CHECK_INTERVAL'' = '''' \<or>
          isl (time_ParseDuration lib (Getenv environ ''CHECK_INTERVAL'')))
           \<longrightarrow> CheckInterval cfg = 24 * Hour)
      \<and> ((Getenv environ ''EXPIRATION_THRESHOLD'' = '''' \<or>
          isl (time_ParseDuration lib (Getenv environ ''EXPIRATION_THRESHOLD'')))
           \<longrightarrow> ExpirationThreshold cfg = 720 * Hour)
      \<and> ((Getenv environ ''HEALTH_PORT'' = '''' \<or>
          isl (strconv_Atoi lib (Getenv environ ''HEALTH_PORT'')))
           \<longrightarrow> HealthPort cfg = 8080)
      \<and> (\<forall>wh\<in>set (Webhooks cfg).
           \<exists>j. Name wh = ''webhook-'' @ Itoa (int j + 1) \<and>
             ((Getenv environ (''WEBHOOK_'' @ Itoa (int j + 1) @ ''_TIMEOUT'') = '''' \<or>
               isl (time_ParseDuration lib
                      (Getenv environ (''WEBHOOK_'' @ Itoa (int j + 1) @ ''_TIMEOUT''))))
              \<longrightarrow> Timeout wh = 30 * Second)))"
proof -
  have "(\<exists>err. Load lib environ = Inl err) = isl (Load lib environ)"
    by (cases "Load lib environ") simp_all
  then have a: "(\<exists>err. Load lib environ = Inl err) =
     (Getenv environ ''WEBHOOK_URLS'' = '''' \<or>
      (\<forall>u\<in>set (Split (Getenv environ ''WEBHOOK_URLS'') CHR '',''). TrimSpace u = ''''))"
    by (simp only: Load_isl loadWebhooks_isl)
  have b: "\<forall>cfg. Load lib environ = Inr cfg \<longrightarrow>
        ((Getenv environ ''CHECK_INTERVAL'' = '''' \<or>
          isl (time_ParseDuration lib (Getenv environ ''CHECK_INTERVAL'')))
           \<longrightarrow> CheckInterval cfg = 24 * Hour)
      \<and> ((Getenv environ ''EXPIRATION_THRESHOLD'' = '''' \<or>
          isl (time_ParseDuration lib (Getenv environ ''EXPIRATION_THRESHOLD'')))
           \<longrightarrow> ExpirationThreshold cfg = 720 * Hour)
      \<and> ((Getenv environ ''HEALTH_PORT'' = '''' \<or>
          isl (strconv_Atoi lib (Getenv environ ''HEALTH_PORT'')))
           \<longrightarrow> HealthPort cfg = 8080)
      \<and> (\<forall>wh\<in>set (Webhooks cfg).
           \<exists>j. Name wh = ''webhook-'' @ Itoa (int j + 1) \<and>
             ((Getenv environ (''WEBHOOK_'' @ Itoa (int j + 1) @ ''_TIMEOUT'') = '''' \<or>
               isl (time_ParseDuration lib
                      (Getenv environ (''WEBHOOK_'' @ Itoa (int j + 1) @ ''_TIMEOUT''))))
              \<longrightarrow> Timeout wh = 30 * Second))"
  proof (intro allI impI)
    fix cfg assume ok: "Load lib environ = Inr cfg"
    then obtain ws where ws: "loadWebhooks lib environ = Inr ws"
      by (cases "loadWebhooks lib environ") (auto dest: Load_Inl)
    from Load_Inr [OF ws] ok have hooks: "Webhooks cfg = ws" by auto
    from ws have loop: "ws = loadWebhooks_loop lib environ 0
        (Split (Getenv environ ''WEBHOOK_URLS'') CHR '','') []"
      by (auto simp: loadWebhooks_def Let_def split: if_splits)
    have c1: "(Getenv environ ''CHECK_INTERVAL'' = '''' \<or>
          isl (time_ParseDuration lib (Getenv environ ''CHECK_INTERVAL'')))
           \<longrightarrow> CheckInterval cfg = 24 * Hour"
      unfolding Load_fields(1) [OF ok] by (auto split: sum.splits)
    have c2: "(Getenv environ ''EXPIRATION_THRESHOLD'' = '''' \<or>
          isl (time_ParseDuration lib (Getenv environ ''EXPIRATION_THRESHOLD'')))
           \<longrightarrow> ExpirationThreshold cfg = 720 * Hour"
      unfolding Load_fields(2) [OF ok] by (auto split: sum.splits)
    have c3: "(Getenv environ ''HEALTH_PORT'' = '''' \<or>
          isl (strconv_Atoi lib (Getenv environ ''HEALTH_PORT'')))
           \<longrightarrow> HealthPort cfg = 8080"
      unfolding Load_fields(3) [OF ok] by (auto split: sum.splits)
    have c4: "\<forall>wh\<in>set (Webhooks cfg).
           \<exists>j. Name wh = ''webhook-'' @ Itoa (int j + 1) \<and>
             ((Getenv environ (''WEBHOOK_'' @ Itoa (int j + 1) @ ''_TIMEOUT'') = '''' \<or>
               isl (time_ParseDuration lib
                      (Getenv environ (''WEBHOOK_'' @ Itoa (int j + 1) @ ''_TIMEOUT''))))
              \<longrightarrow> Timeout wh = 30 * Second)"
    proof
      fix wh assume "wh \<in> set (Webhooks cfg)"
      with hooks loop have "wh \<in> set (loadWebhooks_loop lib environ 0
        (Split (Getenv environ ''WEBHOOK_URLS'') CHR '','') [])"
        by simp
      from loadWebhooks_loop_timeout [OF this]
      show "\<exists>j. Name wh = ''webhook-'' @ Itoa (int j + 1) \<and>
             ((Getenv environ (''WEBHOOK_'' @ Itoa (int j + 1) @ ''_TIMEOUT'') = '''' \<or>
               isl (time_ParseDuration lib
                      (Getenv environ (''WEBHOOK_'' @ Itoa (int j + 1) @ ''_TIMEOUT''))))
              \<longrightarrow> Timeout wh = 30 * Second)"
        by simp
    qed
    from c1 c2 c3 c4 show "((Getenv environ ''CHECK_INTERVAL'' = '''' \<or>
          isl (time_ParseDuration lib (Getenv environ ''CHECK_INTERVAL'')))
           \<longrightarrow> CheckInterval cfg = 24 * Hour)
      \<and> ((Getenv environ ''EXPIRATION_THRESHOLD'' = '''' \<or>
          isl (time_ParseDuration lib (Getenv environ ''EXPIRATION_THRESHOLD'')))
           \<longrightarrow> ExpirationThreshold cfg = 720 * Hour)
      \<and> ((Getenv environ ''HEALTH_PORT'' = '''' \<or>
          isl (strconv_Atoi lib (Getenv environ ''HEALTH_PORT'')))
           \<longrightarrow> HealthPort cfg = 8080)
      \<and> (\<forall>wh\<in>set (Webhooks cfg).
           \<exists>j. Name wh = ''webhook-'' @ Itoa (int j + 1) \<and>
             ((Getenv environ (''WEBHOOK_'' @ Itoa (int j + 1) @ ''_TIMEOUT'') = '''' \<or>
               isl (time_ParseDuration lib
                      (Getenv environ (''WEBHOOK_'' @ Itoa (int j + 1) @ ''_TIMEOUT''))))
              \<longrightarrow> Timeout wh = 30 * Second))"
      by (intro conjI)
  qed
  from a b show ?thesis by (intro conjI)
qed

theorem malformed_optionals_ignored_witness:
  "Load example_lib example_environ =
       Inr \<lparr>Webhooks =
            [\<lparr>Name = ''webhook-1'', URL = ''https://a.example/hook'', Headers = [],
              Timeout = 30 * Second\<rparr>,
             \<lparr>Name = ''webhook-3'', URL = ''https://b.example/hook'', Headers = [],
              Timeout = 30 * Second\<rparr>],
            CheckInterval = 24 * Hour, ExpirationThreshold = 720 * Hour, Namespace = '''',
            HealthPort = 8080, LogLevel = ''info''\<rparr>
   \<and> Getenv example_environ ''CHECK_INTERVAL'' = ''daily''
   \<and> isl (time_ParseDuration example_lib ''daily'')
   \<and> Getenv example_environ ''EXPIRATION_THRESHOLD'' = ''30d''
   \<and> isl (time_ParseDuration example_lib ''30d'')
   \<and> Getenv example_environ ''HEALTH_PORT'' = ''http''
   \<and> isl (strconv_Atoi example_lib ''http'')
   \<and> Getenv example_environ ''WEBHOOK_3_TIMEOUT'' = ''soon''
   \<and> isl (time_ParseDuration example_lib ''soon'')"
proof -
  have load: "Load example_lib example_environ =
       Inr \<lparr>Webhooks =
            [\<lparr>Name = ''webhook-1'', URL = ''https://a.example/hook'', Headers = [],
              Timeout = 30 * Second\<rparr>,
             \<lparr>Name = ''webhook-3'', URL = ''https://b.example/hook'', Headers = [],
              Timeout = 30 * Second\<rparr>],
            CheckInterval = 24 * Hour, ExpirationThreshold = 720 * Hour, Namespace = '''',
            HealthPort = 8080, LogLevel = ''info''\<rparr>"
    by code_simp
  have e1: "Getenv example_environ ''CHECK_INTERVAL'' = ''daily''" by code_simp
  have e2: "Getenv example_environ ''EXPIRATION_THRESHOLD'' = ''30d''" by code_simp
  have e3: "Getenv example_environ ''HEALTH_PORT'' = ''http''" by code_simp
  have e4: "Getenv example_environ ''WEBHOOK_3_TIMEOUT'' = ''soon''" by code_simp
  have p1: "isl (time_ParseDuration example_lib ''daily'')" by code_simp
  have p2: "isl (time_ParseDuration example_lib ''30d'')" by code_simp
  have p3: "isl (strconv_Atoi example_lib ''http'')" by code_simp
  have p4: "isl (time_ParseDuration example_lib ''soon'')" by code_simp
  note inst = malformed_optionals_ignored [of example_lib example_environ, THEN conjunct2,
      rule_format, OF load]
  from inst load e1 e2 e3 e4 p1 p2 p3 p4 show ?thesis by (intro conjI)
qed

subsection \<open>float64 rounding\<close>

lemma pow2_powi: "pow2 e = 2 powi e"
  by (simp add: pow2_def power_int_def inverse_eq_divide power_one_over)

lemma pow2_pos: "0 < pow2 e"
  by (simp add: pow2_powi)

lemma pow2_add: "pow2 (a + b) = pow2 a * pow2 b"
  by (simp add: pow2_powi power_int_add)

lemma pow2_mono: "a \<le> b \<Longrightarrow> pow2 a \<le> pow2 b"
  by (simp add: pow2_powi power_int_increasing)

lemma pow2_strict_mono: "a < b \<Longrightarrow> pow2 a < pow2 b"
  by (simp add: pow2_powi power_int_strict_increasing)

lemma pow2_less_imp: "pow2 a < pow2 b \<Longrightarrow> a < b"
  using pow2_mono [of b a] by (cases "a < b") auto

lemma pow2_nat: "pow2 (int n) = 2 ^ n"
  by (simp add: pow2_def)

lemma pow2_of_int: "0 \<le> e \<Longrightarrow> pow2 e = of_int (2 ^ nat e)"
  by (simp add: pow2_def)

lemma f64_exponent_bounds:
  assumes "x \<noteq> 0"
  shows "pow2 (f64_exponent x) \<le> \<bar>x\<bar> \<and> \<bar>x\<bar> < pow2 (f64_exponent x + 1)"
proof -
  obtain a b where q: "quotient_of \<bar>x\<bar> = (a, b)" by (cases "quotient_of \<bar>x\<bar>")
  from quotient_of_denom_pos [OF q] have b: "0 < b" .
  from quotient_of_div [OF q] have x: "\<bar>x\<bar> = of_int a / of_int b" .
  from assms have "0 < \<bar>x\<bar>" by simp
  with x b have a: "0 < a" by (simp add: zero_less_divide_iff)
  let ?la = "bitlen a" and ?lb = "bitlen b"
  from bitlen_bounds [OF a] have a1: "2 ^ nat (?la - 1) \<le> a" and a2: "a < 2 ^ nat ?la" by auto
  from bitlen_bounds [OF b] have b1: "2 ^ nat (?lb - 1) \<le> b" and b2: "b < 2 ^ nat ?lb" by auto
  have la: "1 \<le> ?la" using a bitlen_eq_zero_iff [of a] bitlen_nonneg [of a] by linarith
  have lb: "1 \<le> ?lb" using b bitlen_eq_zero_iff [of b] bitlen_nonneg [of b] by linarith
  have ra1: "pow2 (?la - 1) \<le> of_int a"
  proof -
    have "(of_int (2 ^ nat (?la - 1)) :: rat) \<le> of_int a" using a1 by (simp only: of_int_le_iff)
    then show ?thesis using la by (simp add: pow2_of_int)
  qed
  have ra2: "of_int a < pow2 ?la"
  proof -
    have "(of_int a :: rat) < of_int (2 ^ nat ?la)" using a2 by (simp only: of_int_less_iff)
    then show ?thesis using la by (simp add: pow2_of_int)
  qed
  have rb1: "pow2 (?lb - 1) \<le> of_int b"
  proof -
    have "(of_int (2 ^ nat (?lb - 1)) :: rat) \<le> of_int b" using b1 by (simp only: of_int_le_iff)
    then show ?thesis using lb by (simp add: pow2_of_int)
  qed
  have rb2: "of_int b < pow2 ?lb"
  proof -
    have "(of_int b :: rat) < of_int (2 ^ nat ?lb)" using b2 by (simp only: of_int_less_iff)
    then show ?thesis using lb by (simp add: pow2_of_int)
  qed
  have bpos: "(0::rat) < of_int b" using b by simp
  have upper: "\<bar>x\<bar> < pow2 (?la - ?lb + 1)"
  proof -
    have "pow2 (?la - ?lb + 1) * of_int b \<ge> pow2 (?la - ?lb + 1) * pow2 (?lb - 1)"
      using rb1 pow2_pos [of "?la - ?lb + 1"] by (simp add: mult_left_mono)
    also have "pow2 (?la - ?lb + 1) * pow2 (?lb - 1) = pow2 ?la"
      by (simp add: pow2_add [symmetric])
    finally have "of_int a < pow2 (?la - ?lb + 1) * of_int b" using ra2 by linarith
    then show ?thesis using bpos by (simp add: x pos_divide_less_eq)
  qed
  have lower: "pow2 (?la - ?lb - 1) \<le> \<bar>x\<bar>"
  proof -
    have "pow2 (?la - ?lb - 1) * of_int b \<le> pow2 (?la - ?lb - 1) * pow2 ?lb"
      using rb2 pow2_pos [of "?la - ?lb - 1"] by (simp add: mult_left_mono)
    also have "pow2 (?la - ?lb - 1) * pow2 ?lb = pow2 (?la - 1)"
      by (simp add: pow2_add [symmetric])
    finally have "pow2 (?la - ?lb - 1) * of_int b \<le> of_int a" using ra1 by linarith
    then show ?thesis using bpos by (simp add: x pos_le_divide_eq)
  qed
  show ?thesis
  proof (cases "pow2 (?la - ?lb) \<le> \<bar>x\<bar>")
    case True
    then have "f64_exponent x = ?la - ?lb" by (simp add: f64_exponent_def q)
    with True upper show ?thesis by simp
  next
    case False
    then have e: "f64_exponent x = ?la - ?lb - 1" by (simp add: f64_exponent_def q)
    from False have "\<bar>x\<bar> < pow2 (?la - ?lb - 1 + 1)" by simp
    with lower e show ?thesis by simp
  qed
qed

lemma f64_exponent_le:
  assumes "x \<noteq> 0" and "\<bar>x\<bar> < pow2 (k + 1)"
  shows "f64_exponent x \<le> k"
proof -
  from f64_exponent_bounds [OF assms(1)] assms(2)
  have "pow2 (f64_exponent x) < pow2 (k + 1)" by linarith
  from pow2_less_imp [OF this] show ?thesis by simp
qed

lemma f64_exponent_ge:
  assumes "x \<noteq> 0" and "pow2 k \<le> \<bar>x\<bar>"
  shows "k \<le> f64_exponent x"
proof -
  from f64_exponent_bounds [OF assms(1)] assms(2)
  have "pow2 k < pow2 (f64_exponent x + 1)" by linarith
  from pow2_less_imp [OF this] show ?thesis by simp
qed

lemma rhe_cases:
  "round_half_even m = \<lfloor>m\<rfloor> \<or> round_half_even m = \<lfloor>m\<rfloor> + 1"
  by (simp add: round_half_even_def Let_def)

lemma rhe_error: "\<bar>of_int (round_half_even m) - m\<bar> \<le> 1 / 2"
proof -
  have "of_int \<lfloor>m\<rfloor> \<le> m" "m < of_int \<lfloor>m\<rfloor> + 1" by linarith+
  then show ?thesis
    by (auto simp: round_half_even_def Let_def)
qed

lemma rhe_of_int: "round_half_even (of_int k) = k"
  by (simp add: round_half_even_def)

lemma rhe_ge: "of_int k \<le> m \<Longrightarrow> k \<le> round_half_even m"
proof -
  assume "of_int k \<le> m"
  then have "k \<le> \<lfloor>m\<rfloor>" by (simp add: le_floor_iff)
  with rhe_cases [of m] show ?thesis by auto
qed

lemma rhe_le: "m \<le> of_int k \<Longrightarrow> round_half_even m \<le> k"
proof (cases "m = of_int k")
  case True
  then show ?thesis by (simp add: rhe_of_int)
next
  case False
  assume "m \<le> of_int k"
  with False have "m < of_int k" by simp
  then have "\<lfloor>m\<rfloor> < k" by (simp add: floor_less_iff)
  with rhe_cases [of m] show ?thesis by auto
qed

lemma rhe_minus: "round_half_even (- m) = - round_half_even m"
proof (cases "m = of_int \<lfloor>m\<rfloor>")
  case True
  then obtain k where "m = of_int k" ..
  then have "- m = of_int (- k)" by simp
  then show ?thesis using \<open>m = of_int k\<close> by (simp only: rhe_of_int)
next
  case False
  define f where "f = \<lfloor>m\<rfloor>"
  define r where "r = m - of_int f"
  have m: "m = of_int f + r" by (simp add: r_def)
  from False have "of_int f \<noteq> m" unfolding f_def by (rule not_sym)
  moreover have "of_int f \<le> m" unfolding f_def by (rule of_int_floor_le)
  ultimately have "of_int f < m" by (rule order.not_eq_order_implies_strict)
  then have r0: "0 < r" by (simp add: r_def)
  have "m < of_int f + 1" unfolding f_def by linarith
  then have r1: "r < 1" by (simp add: r_def)
  have fl: "\<lfloor>- m\<rfloor> = - f - 1"
    using r0 r1 by (intro floor_unique) (simp_all add: m)
  have A: "round_half_even m =
      (if r < 1 / 2 then f else if 1 / 2 < r then f + 1 else if even f then f else f + 1)"
    by (simp only: round_half_even_def Let_def f_def r_def)
  have eq: "- m - of_int (- f - 1) = 1 - r" by (simp add: m)
  have B: "round_half_even (- m) =
      (if 1 - r < 1 / 2 then - f - 1 else if 1 / 2 < 1 - r then - f
       else if even (- f - 1) then - f - 1 else - f)"
    unfolding round_half_even_def Let_def fl eq by simp
  consider "r < 1 / 2" | "r = 1 / 2" | "1 / 2 < r" by linarith
  then show ?thesis
  proof cases
    case 1
    then show ?thesis by (simp add: A B)
  next
    case 2
    then show ?thesis by (simp add: A B)
  next
    case 3
    then show ?thesis by (simp add: A B)
  qed
qed

lemma f64_round_eq:
  "x \<noteq> 0 \<Longrightarrow>
     f64_round x = of_int (round_half_even (x / pow2 (f64_exponent x - 52)))
                     * pow2 (f64_exponent x - 52)"
  by (simp add: f64_round_def Let_def)

lemma f64_round_error:
  assumes "x \<noteq> 0"
  shows "\<bar>f64_round x - x\<bar> \<le> pow2 (f64_exponent x - 52) / 2"
proof -
  let ?q = "pow2 (f64_exponent x - 52)"
  have q: "0 < ?q" by (rule pow2_pos)
  have "(of_int (round_half_even (x / ?q)) - x / ?q) * ?q = f64_round x - x"
    using q by (simp add: f64_round_eq [OF assms] left_diff_distrib)
  then have "\<bar>f64_round x - x\<bar> = \<bar>(of_int (round_half_even (x / ?q)) - x / ?q) * ?q\<bar>"
    by simp
  also have "\<dots> = \<bar>of_int (round_half_even (x / ?q)) - x / ?q\<bar> * ?q"
    using q by (simp only: abs_mult abs_of_pos)
  also have "\<dots> \<le> (1 / 2) * ?q"
    using rhe_error [of "x / ?q"] q by (intro mult_right_mono) simp_all
  finally show ?thesis by simp
qed

lemma f64_round_ge_grid:
  assumes "x \<noteq> 0" and "of_int k * pow2 (f64_exponent x - 52) \<le> x"
  shows "of_int k * pow2 (f64_exponent x - 52) \<le> f64_round x"
proof -
  let ?q = "pow2 (f64_exponent x - 52)"
  have q: "0 < ?q" by (rule pow2_pos)
  from assms(2) q have "of_int k \<le> x / ?q" by (simp add: pos_le_divide_eq)
  from rhe_ge [OF this] have "(of_int k :: rat) \<le> of_int (round_half_even (x / ?q))"
    by (simp only: of_int_le_iff)
  with q show ?thesis by (simp add: f64_round_eq [OF assms(1)])
qed

lemma f64_round_le_grid:
  assumes "x \<noteq> 0" and "x \<le> of_int k * pow2 (f64_exponent x - 52)"
  shows "f64_round x \<le> of_int k * pow2 (f64_exponent x - 52)"
proof -
  let ?q = "pow2 (f64_exponent x - 52)"
  have q: "0 < ?q" by (rule pow2_pos)
  from assms(2) q have "x / ?q \<le> of_int k" by (simp add: pos_divide_le_eq)
  from rhe_le [OF this] have "(of_int (round_half_even (x / ?q)) :: rat) \<le> of_int k"
    by (simp only: of_int_le_iff)
  with q show ?thesis by (simp add: f64_round_eq [OF assms(1)])
qed

lemma int_on_grid:
  assumes "e \<le> 52"
  shows "of_int n = of_int (n * 2 ^ nat (52 - e)) * pow2 (e - 52)"
proof -
  have "pow2 (52 - e) * pow2 (e - 52) = 1"
    by (simp add: pow2_add [symmetric] pow2_def)
  moreover have "pow2 (52 - e) = of_int (2 ^ nat (52 - e))"
    using assms by (simp add: pow2_of_int)
  ultimately show ?thesis by (simp add: mult.assoc)
qed

lemma f64_exponent_minus: "f64_exponent (- x) = f64_exponent x"
  by (simp add: f64_exponent_def)

lemma f64_round_minus: "f64_round (- x) = - f64_round x"
  by (simp add: f64_round_def Let_def f64_exponent_minus rhe_minus)

lemma f64_round_int_ge:
  assumes "x \<noteq> 0" and "f64_exponent x \<le> 52" and "of_int n \<le> x"
  shows "of_int n \<le> f64_round x"
proof -
  have g: "of_int (n * 2 ^ nat (52 - f64_exponent x)) * pow2 (f64_exponent x - 52) = of_int n"
    by (rule int_on_grid [OF assms(2), symmetric])
  from assms(3) have "of_int (n * 2 ^ nat (52 - f64_exponent x)) * pow2 (f64_exponent x - 52) \<le> x"
    by (simp only: g)
  from f64_round_ge_grid [OF assms(1) this] show ?thesis by (simp only: g)
qed

lemma f64_round_int_le:
  assumes "x \<noteq> 0" and "f64_exponent x \<le> 52" and "x \<le> of_int n"
  shows "f64_round x \<le> of_int n"
proof -
  have g: "of_int (n * 2 ^ nat (52 - f64_exponent x)) * pow2 (f64_exponent x - 52) = of_int n"
    by (rule int_on_grid [OF assms(2), symmetric])
  from assms(3) have "x \<le> of_int (n * 2 ^ nat (52 - f64_exponent x)) * pow2 (f64_exponent x - 52)"
    by (simp only: g)
  from f64_round_le_grid [OF assms(1) this] show ?thesis by (simp only: g)
qed

lemma f64_round_of_int:
  assumes "\<bar>n\<bar> < 2 ^ 53"
  shows "f64_round (of_int n) = of_int n"
proof (cases "n = 0")
  case True
  then show ?thesis by (simp add: f64_round_def)
next
  case False
  then have nz: "(of_int n :: rat) \<noteq> 0" by simp
  have "\<bar>of_int n :: rat\<bar> = of_int \<bar>n\<bar>" by simp
  also have "\<dots> < of_int (2 ^ 53)" using assms by (simp only: of_int_less_iff)
  also have "\<dots> = pow2 (52 + 1)" by (simp add: pow2_def)
  finally have e: "f64_exponent (of_int n) \<le> 52" by (rule f64_exponent_le [OF nz])
  from f64_round_int_ge [OF nz e, of n] f64_round_int_le [OF nz e, of n]
  show ?thesis by (simp only: order_refl order.antisym)
qed

lemma pow2_vals:
  "pow2 0 = 1" "pow2 12 = 4096" "pow2 (-53) = 1 / 9007199254740992"
  "pow2 (-41) = 1 / 2199023255552" "pow2 (-4) = 1 / 16" "pow2 53 = 9007199254740992"
  by (simp_all add: pow2_def)

lemma f64_round_0: "f64_round 0 = 0"
  by (simp add: f64_round_def)

lemma f64_round_nonneg:
  assumes "0 \<le> x" and "f64_exponent x \<le> 52"
  shows "0 \<le> f64_round x"
proof (cases "x = 0")
  case True
  then show ?thesis by (simp add: f64_round_0)
next
  case False
  from f64_round_int_ge [OF False assms(2), of 0] assms(1) show ?thesis by simp
qed

text \<open>The quotient of the nanosecond part by an hour rounds to a value short of 1.\<close>

lemma frac_bounds:
  fixes n :: int
  assumes n0: "0 \<le> n" and n1: "n < 3600000000000"
  defines "x \<equiv> (of_int n :: rat) / 3600000000000"
  shows "0 \<le> f64_round x"
    and "f64_round x \<le> 1 - 1 / 3600000000000 + 1 / 18014398509481984"
proof -
  have x0: "0 \<le> x" using n0 by (simp add: x_def)
  from n1 have "n \<le> 3599999999999" by simp
  then have "(of_int n :: rat) \<le> of_int 3599999999999" by (simp only: of_int_le_iff)
  then have xU: "x \<le> 1 - 1 / 3600000000000" by (simp add: x_def)
  show "0 \<le> f64_round x"
  proof (cases "x = 0")
    case True
    then show ?thesis by (simp add: f64_round_0)
  next
    case False
    have "\<bar>x\<bar> < pow2 (-1 + 1)" using x0 xU by (simp add: pow2_vals)
    from f64_exponent_le [OF False this] have "f64_exponent x \<le> 52" by simp
    from f64_round_nonneg [OF x0 this] show ?thesis .
  qed
  show "f64_round x \<le> 1 - 1 / 3600000000000 + 1 / 18014398509481984"
  proof (cases "x = 0")
    case True
    then show ?thesis by (simp add: f64_round_0)
  next
    case False
    have "\<bar>x\<bar> < pow2 (-1 + 1)" using x0 xU by (simp add: pow2_vals)
    from f64_exponent_le [OF False this] have e: "f64_exponent x - 52 \<le> -53" by simp
    from pow2_mono [OF e] have "pow2 (f64_exponent x - 52) \<le> 1 / 9007199254740992"
      by (simp add: pow2_vals)
    with f64_round_error [OF False] have "\<bar>f64_round x - x\<bar> \<le> 1 / 18014398509481984"
      by linarith
    with xU show ?thesis by linarith
  qed
qed

lemma pow2_53_grid: "of_int (2 ^ 53) * pow2 (e - 52) = pow2 (e + 1)"
proof -
  have "e + 1 = 53 + (e - 52)" by simp
  then have "pow2 (e + 1) = pow2 (53 + (e - 52))" by (rule arg_cong)
  also have "\<dots> = pow2 53 * pow2 (e - 52)" by (rule pow2_add)
  finally show ?thesis by (simp add: pow2_vals)
qed

lemma f64_round_le_pow2:
  assumes "0 < x"
  shows "f64_round x \<le> pow2 (f64_exponent x + 1)"
proof -
  from assms have nz: "x \<noteq> 0" by simp
  from f64_exponent_bounds [OF nz] assms have "x \<le> pow2 (f64_exponent x + 1)" by simp
  then have "x \<le> of_int (2 ^ 53) * pow2 (f64_exponent x - 52)"
    by (simp only: pow2_53_grid)
  from f64_round_le_grid [OF nz this] show ?thesis
    by (simp only: pow2_53_grid)
qed

text \<open>The sum of the whole hours and the rounded fraction rounds to a value on the grid
  of the sum, at least one grid step short of the next whole hour.\<close>

lemma sum_bounds:
  fixes h :: int and x1 :: rat
  assumes h0: "0 \<le> h" and h1: "h < 4096"
    and x10: "0 \<le> x1" and x1U: "x1 \<le> 1 - 1 / 3600000000000 + 1 / 18014398509481984"
    and nz: "of_int h + x1 \<noteq> 0"
  shows "of_int h \<le> f64_round (of_int h + x1)"
    and "f64_round (of_int h + x1) \<le> of_int h + 1 - pow2 (f64_exponent (of_int h + x1) - 52)"
    and "f64_exponent (of_int h + x1) \<le> 11"
proof -
  define y where "y = of_int h + x1"
  define q where "q = pow2 (f64_exponent y - 52)"
  have q0: "0 < q" unfolding q_def by (rule pow2_pos)
  have ynz: "y \<noteq> 0" using nz by (simp add: y_def)
  have hr: "(0::rat) \<le> of_int h" using h0 by simp
  from h1 have "h \<le> 4095" by simp
  then have "(of_int h :: rat) \<le> of_int 4095" by (simp only: of_int_le_iff)
  then have hU: "(of_int h :: rat) \<le> 4095" by simp
  have y0: "0 \<le> y" using hr x10 by (simp add: y_def)
  have "\<bar>y\<bar> < pow2 (11 + 1)" using y0 hU x1U by (simp add: y_def pow2_vals)
  from f64_exponent_le [OF ynz this] have e: "f64_exponent y \<le> 11" .
  then have "f64_exponent y - 52 \<le> -41" by simp
  from pow2_mono [OF this] have qU: "q \<le> 1 / 2199023255552"
    by (simp add: q_def pow2_vals)
  from f64_round_error [OF ynz] have "\<bar>f64_round y - y\<bar> \<le> q / 2" by (simp add: q_def)
  with qU x1U have lt: "f64_round y < of_int h + 1" unfolding y_def by linarith
  from e have e52: "f64_exponent y \<le> 52" by simp
  have "of_int h \<le> y" using x10 by (simp add: y_def)
  from f64_round_int_ge [OF ynz e52 this] have lo: "of_int h \<le> f64_round y" .
  define M where "M = round_half_even (y / q)"
  define K where "K = (h + 1) * 2 ^ nat (52 - f64_exponent y)"
  have s: "f64_round y = of_int M * q"
    unfolding M_def q_def by (rule f64_round_eq [OF ynz])
  have k: "of_int (h + 1) = of_int K * q"
    unfolding K_def q_def by (rule int_on_grid [OF e52])
  from lt have "of_int M * q < of_int K * q" using s k by simp
  with q0 have "(of_int M :: rat) < of_int K" by (simp only: mult_less_cancel_right_pos)
  then have "M < K" by (simp only: of_int_less_iff)
  then have "M \<le> K - 1" by simp
  then have "(of_int M :: rat) \<le> of_int (K - 1)" by (simp only: of_int_le_iff)
  with q0 have "of_int M * q \<le> of_int (K - 1) * q" by (simp only: mult_le_cancel_right_pos)
  also have "of_int (K - 1) * q = of_int K * q - q" by (simp add: left_diff_distrib)
  also have "\<dots> = of_int h + 1 - q" using k by simp
  finally have hi: "f64_round y \<le> of_int h + 1 - q" using s by simp
  show "of_int h \<le> f64_round (of_int h + x1)" using lo by (simp add: y_def)
  show "f64_round (of_int h + x1) \<le> of_int h + 1 - pow2 (f64_exponent (of_int h + x1) - 52)"
    using hi by (simp add: y_def q_def)
  show "f64_exponent (of_int h + x1) \<le> 11" using e by (simp add: y_def)
qed

text \<open>Dividing by 24 and rounding stays below the next whole day.\<close>

lemma quot_bounds:
  fixes h e :: int and s :: rat
  assumes h0: "0 \<le> h" and lo: "of_int h \<le> s"
    and hi: "s \<le> of_int h + 1 - pow2 (e - 52)"
    and e: "e \<le> 11" and sp: "s \<le> pow2 (e + 1)"
  shows "f64_to_int (f64_round (s / 24)) = h div 24"
proof -
  define Q where "Q = h div 24"
  define z where "z = s / 24"
  define qy where "qy = pow2 (e - 52)"
  have qy0: "0 < qy" unfolding qy_def by (rule pow2_pos)
  have Q0: "0 \<le> Q" using h0 by (simp add: Q_def)
  have "Q * 24 \<le> h" and "h + 1 \<le> Q * 24 + 24" unfolding Q_def by simp_all
  then have "(of_int (Q * 24) :: rat) \<le> of_int h" and "(of_int (h + 1) :: rat) \<le> of_int (Q * 24 + 24)"
    by (simp_all only: of_int_le_iff)
  then have Qh: "(of_int Q :: rat) * 24 \<le> of_int h" and hQ: "(of_int h :: rat) + 1 \<le> of_int Q * 24 + 24"
    by simp_all
  have zlo: "of_int Q \<le> z" using Qh lo by (simp add: z_def)
  have zhi: "z \<le> of_int Q + 1 - qy / 24" using hQ hi by (simp add: z_def qy_def)
  have Qr: "(0::rat) \<le> of_int Q" using Q0 by simp
  show ?thesis
  proof (cases "z = 0")
    case True
    with zlo Qr have "(of_int Q :: rat) = 0" by simp
    then have "Q = 0" by simp
    with True show ?thesis
      by (simp add: z_def [symmetric] Q_def [symmetric] f64_round_0 f64_to_int_def)
  next
    case False
    with zlo Qr have z0: "0 < z" by simp
    have "pow2 (e + 1) * pow2 (-4) = pow2 (e - 4 + 1)"
      by (simp add: pow2_add [symmetric])
    moreover have "z \<le> pow2 (e + 1) / 24" using sp by (simp add: z_def)
    moreover have "0 < pow2 (e + 1)" by (rule pow2_pos)
    ultimately have "\<bar>z\<bar> < pow2 (e - 4 + 1)" using z0 by (simp add: pow2_vals)
    from f64_exponent_le [OF False this] have ez: "f64_exponent z \<le> e - 4" .
    then have "f64_exponent z - 52 \<le> (e - 52) + (-4)" by simp
    from pow2_mono [OF this] have "pow2 (f64_exponent z - 52) \<le> qy * pow2 (-4)"
      by (simp only: pow2_add qy_def)
    then have qz: "pow2 (f64_exponent z - 52) \<le> qy / 16" by (simp add: pow2_vals)
    from f64_round_error [OF False] qz have "\<bar>f64_round z - z\<bar> \<le> qy / 32" by linarith
    with zhi qy0 have rhi: "f64_round z < of_int Q + 1" by linarith
    from ez e have "f64_exponent z \<le> 52" by simp
    from f64_round_int_ge [OF False this zlo] have rlo: "of_int Q \<le> f64_round z" .
    from rlo Qr have "\<not> f64_round z < 0" by simp
    then have "f64_to_int (f64_round z) = \<lfloor>f64_round z\<rfloor>" by (simp add: f64_to_int_def)
    also have "\<dots> = Q" using rlo rhi by (intro floor_unique) simp_all
    finally show ?thesis by (simp add: z_def Q_def)
  qed
qed

lemma days_core:
  fixes h n :: int
  assumes h0: "0 \<le> h" and h1: "h < 4096" and n0: "0 \<le> n" and n1: "n < 3600000000000"
  shows "f64_to_int (f64_div (f64_add (f64_of_int h)
            (f64_div (f64_of_int n) 3600000000000)) 24) = h div 24"
proof -
  have A: "f64_of_int h = of_int h"
    unfolding f64_of_int_def using h0 h1 by (intro f64_round_of_int) simp
  have B: "f64_of_int n = of_int n"
    unfolding f64_of_int_def using n0 n1 by (intro f64_round_of_int) simp
  define x1 where "x1 = f64_round (of_int n / 3600000000000)"
  have x10: "0 \<le> x1" and x1U: "x1 \<le> 1 - 1 / 3600000000000 + 1 / 18014398509481984"
    unfolding x1_def using frac_bounds [OF n0 n1] by simp_all
  define y where "y = of_int h + x1"
  have goal: "f64_to_int (f64_div (f64_add (f64_of_int h)
            (f64_div (f64_of_int n) 3600000000000)) 24) = f64_to_int (f64_round (f64_round y / 24))"
    by (simp add: A B f64_div_def f64_add_def x1_def y_def)
  show ?thesis
  proof (cases "y = 0")
    case True
    have "(0::rat) \<le> of_int h" using h0 by simp
    with True x10 have "(of_int h :: rat) = 0" unfolding y_def by linarith
    then have "h = 0" by simp
    with True show ?thesis
      unfolding goal by (simp add: f64_round_0 f64_to_int_def)
  next
    case False
    then have nz: "of_int h + x1 \<noteq> 0" by (simp add: y_def)
    note sb = sum_bounds [OF h0 h1 x10 x1U nz, folded y_def]
    have "(0::rat) \<le> of_int h" using h0 by simp
    with x10 False have "0 < y" unfolding y_def by linarith
    from f64_round_le_pow2 [OF this] have sp: "f64_round y \<le> pow2 (f64_exponent y + 1)" .
    from quot_bounds [OF h0 sb(1) sb(2) sb(3) sp] show ?thesis
      unfolding goal .
  qed
qed

lemma Hour_val: "Hour = 3600000000000"
  by (simp add: Hour_def Minute_def Second_def)

lemma daysUntilExpiry_nonneg:
  assumes d0: "0 \<le> d" and d1: "d < 4096 * Hour"
  shows "daysUntilExpiry d = d div (24 * Hour)"
proof -
  have sd: "d sdiv Hour = d div Hour" and sm: "d smod Hour = d mod Hour"
    using d0 by (simp_all add: signed_divide_int_def signed_modulo_int_def Hour_val sgn_if)
  have h0: "0 \<le> d div Hour" using d0 by (simp add: Hour_val pos_imp_zdiv_nonneg_iff)
  have h1: "d div Hour < 4096" using d1 unfolding Hour_val by linarith
  have n0: "0 \<le> d mod Hour" and n1: "d mod Hour < 3600000000000"
    by (simp_all add: Hour_val)
  have "daysUntilExpiry d = (d div Hour) div 24"
    unfolding daysUntilExpiry_def Hours_def Let_def sd sm
    by (rule days_core [OF h0 h1 n0 n1])
  also have "\<dots> = d div (Hour * 24)"
    by (simp add: zdiv_zmult2_eq Hour_val)
  finally show ?thesis by (simp add: mult.commute)
qed

lemma f64_to_int_minus: "f64_to_int (- x) = - f64_to_int x"
  by (simp add: f64_to_int_def)

lemma daysUntilExpiry_minus: "daysUntilExpiry (- d) = - daysUntilExpiry d"
proof -
  have sd: "(- d) sdiv Hour = - (d sdiv Hour)" and sm: "(- d) smod Hour = - (d smod Hour)"
    by (simp_all add: signed_divide_int_def signed_modulo_int_def)
  define a where "a = f64_round (of_int (d sdiv Hour))"
  define b0 where "b0 = f64_round (of_int (d smod Hour))"
  define b where "b = f64_round (b0 / 3600000000000)"
  define s where "s = f64_round (a + b)"
  define r where "r = f64_round (s / 24)"
  have a: "f64_round (of_int (- (d sdiv Hour))) = - a"
    by (simp add: a_def f64_round_minus)
  have b0: "f64_round (of_int (- (d smod Hour))) = - b0"
    by (simp add: b0_def f64_round_minus)
  have b: "f64_round (- b0 / 3600000000000) = - b"
    by (simp add: b_def f64_round_minus)
  have "- a + - b = - (a + b)" by simp
  then have s: "f64_round (- a + - b) = - s"
    by (simp only: s_def f64_round_minus)
  have "- s / 24 = - (s / 24)" by simp
  then have r: "f64_round (- s / 24) = - r"
    by (simp only: r_def f64_round_minus)
  have "daysUntilExpiry (- d) = f64_to_int (- r)"
    unfolding daysUntilExpiry_def Hours_def Let_def sd sm f64_of_int_def f64_add_def
      f64_div_def a b0 b s r ..
  also have "\<dots> = - f64_to_int r" by (rule f64_to_int_minus)
  also have "f64_to_int r = daysUntilExpiry d"
    unfolding daysUntilExpiry_def Hours_def Let_def f64_of_int_def f64_add_def
      f64_div_def r_def s_def b_def b0_def a_def ..
  finally show ?thesis .
qed

lemma daysUntilExpiry_truncates:
  assumes "\<bar>d\<bar> < 4096 * Hour"
  shows "daysUntilExpiry d = d sdiv (24 * Hour)"
proof (cases "0 \<le> d")
  case True
  with assms have "d < 4096 * Hour" by simp
  from daysUntilExpiry_nonneg [OF True this] True show ?thesis
    by (simp add: signed_divide_int_def Hour_val sgn_if)
next
  case False
  then have pos: "0 \<le> - d" by simp
  from False assms have "- d < 4096 * Hour" by simp
  from daysUntilExpiry_nonneg [OF pos this] have "daysUntilExpiry (- d) = (- d) div (24 * Hour)" .
  then have "daysUntilExpiry d = - ((- d) div (24 * Hour))"
    by (simp add: daysUntilExpiry_minus)
  also have "\<dots> = d sdiv (24 * Hour)"
    using False by (simp add: signed_divide_int_def Hour_val sgn_if)
  finally show ?thesis .
qed

lemma days_36h: "daysUntilExpiry (36 * Hour) = 1" by code_simp
lemma days_48h: "daysUntilExpiry (48 * Hour) = 2" by code_simp

subsection \<open>Days remaining\<close>

lemma days_4104: "daysUntilExpiry 14774399999999999 = 171"
  by code_simp

lemma Itoa_171: "Itoa 171 = ''171''"
  by code_simp

text \<open>
  C5. The message of the expiring event is to report the remaining duration divided by 24
  hours, truncated toward zero. The code computes \<^verbatim>\<open>int(remaining.Hours() / 24)\<close> in
  float64 and misses that value where \<^verbatim>\<open>Duration.Hours\<close> rounds up to a whole day: with
  a threshold of 8760 hours, a certificate whose remaining duration is one nanosecond short
  of 4104 hours fires an expiring event whose message reports 171 days, while that
  duration divided by 24 hours and truncated is 170.
\<close>

theorem days_remaining_at_4104h:
  "map Message (fst (snd (snd (checkCertificate (example_env (always 200) [])
       example_monitor_year (example_cert ''letsencrypt'' (Some (1000 + 4104 * Hour - 1)))
       1000 1000))))
     = [''Certificate default/test-cert expires in 171 days'']
   \<and> Sub (1000 + 4104 * Hour - 1) 1000 = 4104 * Hour - 1
   \<and> (4104 * Hour - 1) sdiv (24 * Hour) = 170"
proof -
  have a: "map Message (fst (snd (snd (checkCertificate (example_env (always 200) [])
       example_monitor_year (example_cert ''letsencrypt'' (Some (1000 + 4104 * Hour - 1)))
       1000 1000))))
     = [''Certificate default/test-cert expires in 171 days'']"
    by (simp add: monitor_defs notifier_defs example_defs example_monitor_year_def
        example_notifier_def Sub_def maxDuration_def minDuration_def Hour_val
        days_4104 Itoa_171)
  have b: "Sub (1000 + 4104 * Hour - 1) 1000 = 4104 * Hour - 1"
    by (simp add: Sub_def maxDuration_def minDuration_def Hour_val)
  have c: "(4104 * Hour - 1) sdiv (24 * Hour) = 170"
    by (simp add: Hour_val signed_divide_int_def)
  from a b c show ?thesis by (intro conjI)
qed

lemma Itoa_1: "Itoa 1 = ''1''" by code_simp
lemma Itoa_2: "Itoa 2 = ''2''" by code_simp

text \<open>
  Where the code agrees with the truncating division: the message always carries
  \<^verbatim>\<open>int(remaining.Hours() / 24)\<close>, where remaining is the expiry instant minus the clock
  reading of the sender, and for every remaining duration of magnitude below 4096 hours
  that number is the remaining duration divided by 24 hours and truncated toward zero; 36
  hours report 1 and exactly 48 hours report 2.
\<close>

theorem expiring_message_days:
  assumes until: "Until env expiresAt w = (remaining, w1)"
    and send: "SendExpiringNotification env n certName namespace issuer dnsNames expiresAt w
                 = (r, payload, w')"
  shows "Message payload = ''Certificate '' @ namespace @ ''/'' @ certName
            @ '' expires in '' @ Itoa (daysUntilExpiry remaining) @ '' days''
       \<and> (\<bar>remaining\<bar> < 4096 * Hour \<longrightarrow>
            Message payload = ''Certificate '' @ namespace @ ''/'' @ certName
              @ '' expires in '' @ Itoa (remaining sdiv (24 * Hour)) @ '' days'')
       \<and> (remaining = 36 * Hour \<longrightarrow>
            Message payload = ''Certificate '' @ namespace @ ''/'' @ certName
              @ '' expires in 1 days'')
       \<and> (remaining = 48 * Hour \<longrightarrow>
            Message payload = ''Certificate '' @ namespace @ ''/'' @ certName
              @ '' expires in 2 days'')"
proof -
  from until send have msg: "Message payload = ''Certificate '' @ namespace @ ''/'' @ certName
      @ '' expires in '' @ Itoa (daysUntilExpiry remaining) @ '' days''"
    by (auto simp: SendExpiringNotification_def Let_def split: prod.splits)
  have a: "\<bar>remaining\<bar> < 4096 * Hour \<longrightarrow>
            Message payload = ''Certificate '' @ namespace @ ''/'' @ certName
              @ '' expires in '' @ Itoa (remaining sdiv (24 * Hour)) @ '' days''"
    using msg by (simp add: daysUntilExpiry_truncates)
  have b: "remaining = 36 * Hour \<longrightarrow>
            Message payload = ''Certificate '' @ namespace @ ''/'' @ certName
              @ '' expires in 1 days''"
    using msg by (simp add: days_36h Itoa_1)
  have c: "remaining = 48 * Hour \<longrightarrow>
            Message payload = ''Certificate '' @ namespace @ ''/'' @ certName
              @ '' expires in 2 days''"
    using msg by (simp add: days_48h Itoa_2)
  from msg a b c show ?thesis by (intro conjI)
qed

theorem expiring_message_days_witness:
  "Until (example_env (always 200) []) (1000 + 36 * Hour) 1000 = (36 * Hour, 1000)
   \<and> \<bar>36 * Hour\<bar> < 4096 * Hour
   \<and> (36 * Hour) sdiv (24 * Hour) = 1
   \<and> Message (fst (snd (SendExpiringNotification (example_env (always 200) [])
        example_notifier ''test-cert'' ''default'' ''letsencrypt'' [''example.com'']
        (1000 + 36 * Hour) 1000)))
      = ''Certificate default/test-cert expires in 1 days''"
proof -
  let ?env = "example_env (always 200) []"
  let ?send = "SendExpiringNotification ?env example_notifier ''test-cert'' ''default''
        ''letsencrypt'' [''example.com''] (1000 + 36 * Hour) 1000"
  have until: "Until ?env (1000 + 36 * Hour) 1000 = (36 * Hour, 1000)"
    by (simp add: Until_def example_env_def Sub_def maxDuration_def minDuration_def Hour_val)
  have send: "?send = (fst ?send, fst (snd ?send), snd (snd ?send))"
    by simp
  have small: "\<bar>36 * Hour\<bar> < 4096 * Hour"
    by (simp add: Hour_val)
  have quot: "(36 * Hour) sdiv (24 * Hour) = 1"
    by (simp add: Hour_val signed_divide_int_def)
  from expiring_message_days [OF until send, THEN conjunct2, THEN conjunct1, rule_format,
      OF small]
  have "Message (fst (snd ?send))
      = ''Certificate '' @ ''default'' @ ''/'' @ ''test-cert'' @ '' expires in ''
          @ Itoa ((36 * Hour) sdiv (24 * Hour)) @ '' days''" .
  then have msg: "Message (fst (snd ?send)) = ''Certificate default/test-cert expires in 1 days''"
    by (simp add: quot Itoa_1)
  from until small quot msg show ?thesis by (intro conjI)
qed

end
